theory Spec2Isabelle
  imports Main "HOL-Library.Multiset"
begin

section \<open>Data exchanged with the metadata provider and with the host\<close>

text \<open>
  The TypeScript declarations of \<^verbatim>\<open>src/index.ts\<close>, lines 10-19. An optional field
  (\<^verbatim>\<open>movie_results?\<close>, \<^verbatim>\<open>release_dates?\<close>, \<^verbatim>\<open>results?\<close>) is an \<open>option\<close>,
  \<open>None\<close> when the field is missing. Numbers are the provider's integer identifiers and
  type codes; strings are lists of bytes (UTF-8).
\<close>

record movie_result =
  result_id :: int

record TmdbFindResponse =
  movie_results :: "movie_result list option"

record release =
  release_date :: string
  release_type :: int

record region_result =
  iso_3166_1 :: string
  release_dates :: "release list option"

record TmdbReleaseDatesResponse =
  results :: "region_result list option"

text \<open>The argument of the stream handler (\<^verbatim>\<open>StreamArgs\<close>) and one display entry.\<close>

record StreamArgs =
  args_type :: string
  args_id :: string

record stream =
  name :: string
  title :: string
  externalUrl :: string

section \<open>The runtime: environment, network, clock, date parsing\<close>

text \<open>
  What \<^verbatim>\<open>fetch\<close> gives for a URL: \<open>None\<close> when the promise rejects (network failure),
  otherwise a response with its HTTP status and its body; the body is \<open>None\<close> when
  \<^verbatim>\<open>response.json()\<close> rejects (the body is not JSON), and otherwise the decoded value,
  taken at the type the source casts it to (\<^verbatim>\<open>as T\<close>). \<^verbatim>\<open>response.ok\<close> is a status
  from 200 to 299.
\<close>

datatype 'a response = Response (status: nat) (json: "'a option")

definition ok :: "'a response \<Rightarrow> bool" where
  "ok r = (200 \<le> status r \<and> status r \<le> 299)"

text \<open>What a provider call can throw: the three failures of \<^verbatim>\<open>fetchJson\<close>.\<close>

datatype error = NetworkFailure | RequestFailed nat | InvalidJson

text \<open>
  Everything the handler reads from outside: the environment variable, the provider behind
  \<^verbatim>\<open>fetch\<close> (one function of the URL per response type), \<^verbatim>\<open>new Date(s).getTime()\<close>
  (\<open>None\<close> is NaN: the string does not parse), \<^verbatim>\<open>Date.now()\<close>, in milliseconds, and
  the order in which the runtime's \<^verbatim>\<open>sort\<close> leaves a list that its comparator does not
  order consistently: a rank for each position of the list.
\<close>

record world =
  env_TMDB_API_KEY :: "string option"
  fetch_find :: "string \<Rightarrow> TmdbFindResponse response option"
  fetch_release :: "string \<Rightarrow> TmdbReleaseDatesResponse response option"
  getTime :: "string \<Rightarrow> int option"
  now :: int
  sortOrder :: "string list \<Rightarrow> nat list"

text \<open>Line 7: \<^verbatim>\<open>process.env.TMDB_API_KEY || ""\<close>.\<close>

definition TMDB_API_KEY :: "world \<Rightarrow> string" where
  "TMDB_API_KEY w =
     (case env_TMDB_API_KEY w of None \<Rightarrow> [] | Some k \<Rightarrow> if k = [] then [] else k)"

definition TMDB_BASE_URL :: string where
  "TMDB_BASE_URL = ''https://api.themoviedb.org/3''"

section \<open>Strings, numbers and arrays of the language\<close>

text \<open>\<^verbatim>\<open>s.split(sep)\<close> for a separator of one character: never an empty array.\<close>

fun split_str :: "char \<Rightarrow> string \<Rightarrow> string list" where
  "split_str sep [] = [[]]"
| "split_str sep (c # cs) =
     (if c = sep then [] # split_str sep cs
      else (case split_str sep cs of [] \<Rightarrow> [[c]] | p # ps \<Rightarrow> (c # p) # ps))"

text \<open>\<^verbatim>\<open>xs[0]\<close>: \<open>None\<close> is \<^verbatim>\<open>undefined\<close>.\<close>

definition first :: "'a list \<Rightarrow> 'a option" where
  "first xs = (case xs of [] \<Rightarrow> None | x # _ \<Rightarrow> Some x)"

definition startsWith :: "string \<Rightarrow> string \<Rightarrow> bool" where
  "startsWith s p = (take (length p) s = p)"

text \<open>
  The decimal text of an integer, as a template literal prints a number. The provider's
  identifiers are integers below \<open>2^53\<close>, which the language's numbers hold exactly and
  print with all their digits; the properties below use the text only as a whole.
\<close>

definition digit_char :: "nat \<Rightarrow> char" where
  "digit_char d = ''0123456789'' ! d"

fun digits :: "nat \<Rightarrow> string" where
  "digits n = (if n < 10 then [digit_char n] else digits (n div 10) @ [digit_char (n mod 10)])"

declare digits.simps [simp del]

definition numberToString :: "int \<Rightarrow> string" where
  "numberToString i = (if i < 0 then CHR ''-'' # digits (nat (- i)) else digits (nat i))"

text \<open>
  \<^verbatim>\<open>xs.sort(cmp)\<close>. A comparator result of NaN (\<open>None\<close>) counts as \<open>0\<close>. The language
  fixes the result only when the comparator is consistent on the elements (equality is
  reflexive, symmetric and transitive, and so are less and greater): then the sort is
  stable, and \<open>sortBy\<close>, which inserts each element before the first one it does not come
  after, gives its result. Otherwise the order is the runtime's: \<open>reorder\<close> arranges the
  list by the ranks the runtime gives its positions (a missing rank is 0, equal ranks keep
  their order), which reaches every arrangement of the list and nothing else.
\<close>

definition sortCompare :: "('a \<Rightarrow> 'a \<Rightarrow> int option) \<Rightarrow> 'a \<Rightarrow> 'a \<Rightarrow> int" where
  "sortCompare cmp x y = (case cmp x y of None \<Rightarrow> 0 | Some v \<Rightarrow> v)"

fun insertBy :: "('a \<Rightarrow> 'a \<Rightarrow> int option) \<Rightarrow> 'a \<Rightarrow> 'a list \<Rightarrow> 'a list" where
  "insertBy cmp x [] = [x]"
| "insertBy cmp x (y # ys) =
     (if sortCompare cmp x y \<le> 0 then x # y # ys else y # insertBy cmp x ys)"

definition sortBy :: "('a \<Rightarrow> 'a \<Rightarrow> int option) \<Rightarrow> 'a list \<Rightarrow> 'a list" where
  "sortBy cmp xs = foldr (insertBy cmp) xs []"

definition consistentComparator :: "('a \<Rightarrow> 'a \<Rightarrow> int) \<Rightarrow> 'a list \<Rightarrow> bool" where
  "consistentComparator c xs =
     list_all (\<lambda>a. c a a = 0 \<and>
       list_all (\<lambda>b. (c a b = 0 \<longrightarrow> c b a = 0) \<and>
         list_all (\<lambda>d.
           (c a b = 0 \<and> c b d = 0 \<longrightarrow> c a d = 0) \<and>
           (c a b < 0 \<and> c b d < 0 \<longrightarrow> c a d < 0) \<and>
           (c a b > 0 \<and> c b d > 0 \<longrightarrow> c a d > 0)) xs) xs) xs"

fun ranked :: "nat list \<Rightarrow> 'a list \<Rightarrow> (nat \<times> 'a) list" where
  "ranked rs [] = []"
| "ranked [] (x # xs) = (0, x) # ranked [] xs"
| "ranked (r # rs) (x # xs) = (r, x) # ranked rs xs"

definition reorder :: "nat list \<Rightarrow> 'a list \<Rightarrow> 'a list" where
  "reorder ranks xs = map snd (sort_key fst (ranked ranks xs))"

definition arraySort ::
    "('a list \<Rightarrow> nat list) \<Rightarrow> ('a \<Rightarrow> 'a \<Rightarrow> int option) \<Rightarrow> 'a list \<Rightarrow> 'a list" where
  "arraySort order cmp xs =
     (if consistentComparator (sortCompare cmp) xs then sortBy cmp xs
      else reorder (order xs) xs)"

section \<open>The two provider calls\<close>

text \<open>
  An asynchronous function returns what it resolves to (\<open>Inr\<close>) or what it throws
  (\<open>Inl\<close>), paired with the URLs it requested, in order.
\<close>

type_synonym 'a io = "(error + 'a) \<times> string list"

text \<open>Lines 34-40.\<close>

definition fetchJson :: "(string \<Rightarrow> 'a response option) \<Rightarrow> string \<Rightarrow> 'a io" where
  "fetchJson fetch url =
     ((case fetch url of
         None \<Rightarrow> Inl NetworkFailure
       | Some response \<Rightarrow>
           if \<not> ok response then Inl (RequestFailed (status response))
           else (case json response of None \<Rightarrow> Inl InvalidJson | Some d \<Rightarrow> Inr d)),
      [url])"

text \<open>Line 43: the URL of the identifier lookup.\<close>

definition find_url :: "string \<Rightarrow> string \<Rightarrow> string" where
  "find_url key imdbId =
     TMDB_BASE_URL @ ''/find/'' @ imdbId @ ''?api_key='' @ key @ ''&external_source=imdb_id''"

text \<open>Lines 42-46; \<open>None\<close> is \<^verbatim>\<open>null\<close>.\<close>

definition getTmdbIdFromImdb :: "world \<Rightarrow> string \<Rightarrow> int option io" where
  "getTmdbIdFromImdb w imdbId =
     (case fetchJson (fetch_find w) (find_url (TMDB_API_KEY w) imdbId) of
        (Inl e, calls) \<Rightarrow> (Inl e, calls)
      | (Inr data, calls) \<Rightarrow>
          (Inr (case movie_results data of
                  None \<Rightarrow> None
                | Some rs \<Rightarrow> (case first rs of None \<Rightarrow> None | Some r \<Rightarrow> Some (result_id r))),
           calls))"

text \<open>Line 49: the URL of the release-dates call.\<close>

definition release_dates_url :: "string \<Rightarrow> int \<Rightarrow> string" where
  "release_dates_url key tmdbId =
     TMDB_BASE_URL @ ''/movie/'' @ numberToString tmdbId @ ''/release_dates?api_key='' @ key"

text \<open>Lines 53-57: the dates of the digital releases (type code 4) of some entries.\<close>

definition getDigitalDates :: "region_result list \<Rightarrow> string list" where
  "getDigitalDates items =
     map release_date
       (filter (\<lambda>release. release_type release = 4 \<and> release_date release \<noteq> [])
         (concat (map (\<lambda>result. case release_dates result of None \<Rightarrow> [] | Some ds \<Rightarrow> ds)
            items)))"

text \<open>Line 66: the comparator, a difference of times that is NaN when one is.\<close>

definition compareDates :: "(string \<Rightarrow> int option) \<Rightarrow> string \<Rightarrow> string \<Rightarrow> int option" where
  "compareDates gt a b =
     (case gt a of
        None \<Rightarrow> None
      | Some x \<Rightarrow> (case gt b of None \<Rightarrow> None | Some y \<Rightarrow> Some (x - y)))"

text \<open>Lines 51-67: what \<^verbatim>\<open>getDigitalReleaseDate\<close> computes from the decoded answer.\<close>

definition pickDigitalDate ::
    "(string list \<Rightarrow> nat list) \<Rightarrow> (string \<Rightarrow> int option) \<Rightarrow> TmdbReleaseDatesResponse \<Rightarrow>
     string option" where
  "pickDigitalDate order gt data =
     (let rs = (case results data of None \<Rightarrow> [] | Some xs \<Rightarrow> xs);
          usResult = List.find (\<lambda>result. iso_3166_1 result = ''US'') rs;
          preferred = getDigitalDates (case usResult of None \<Rightarrow> [] | Some r \<Rightarrow> [r]);
          fallback = getDigitalDates rs;
          candidates = (if length preferred > 0 then preferred else fallback)
      in if length candidates = 0 then None
         else first (arraySort order (compareDates gt) candidates))"

text \<open>Lines 48-68.\<close>

definition getDigitalReleaseDate :: "world \<Rightarrow> int \<Rightarrow> string option io" where
  "getDigitalReleaseDate w tmdbId =
     (case fetchJson (fetch_release w) (release_dates_url (TMDB_API_KEY w) tmdbId) of
        (Inl e, calls) \<Rightarrow> (Inl e, calls)
      | (Inr data, calls) \<Rightarrow>
          (Inr (pickDigitalDate (sortOrder w) (getTime w) data), calls))"

section \<open>The stream handler\<close>

text \<open>Line 120: \<^verbatim>\<open>plannedDate.split("T")[0] || plannedDate\<close>.\<close>

definition dateOnlyOf :: "string \<Rightarrow> string" where
  "dateOnlyOf plannedDate =
     (case first (split_str CHR ''T'' plannedDate) of
        None \<Rightarrow> plannedDate
      | Some p \<Rightarrow> if p = [] then plannedDate else p)"

text \<open>
  Lines 108-154: the entry for a resolved date. The names of lines 149-150 hold an
  hourglass (U+23F3) and a dash (U+2014), written here as their UTF-8 bytes.
\<close>

definition formatDate :: "world \<Rightarrow> string \<Rightarrow> string option \<Rightarrow> stream list" where
  "formatDate w tmdbUrl plannedDate =
     (case (case plannedDate of None \<Rightarrow> None | Some s \<Rightarrow> if s = [] then None else Some s) of
        None \<Rightarrow>
          [\<lparr>name = ''No digital date'', title = ''No digital release date found'',
            externalUrl = tmdbUrl\<rparr>]
      | Some planned \<Rightarrow>
          (let dateOnly = dateOnlyOf planned in
           case getTime w planned of
             None \<Rightarrow>
               [\<lparr>name = ''Not yet available'',
                 title = ''Planned digital release: '' @ dateOnly,
                 externalUrl = tmdbUrl\<rparr>]
           | Some releaseTime \<Rightarrow>
               if releaseTime \<le> now w then
                 [\<lparr>name = ''Digital release'', title = ''Released '' @ dateOnly,
                   externalUrl = tmdbUrl\<rparr>]
               else
                 [\<lparr>name = [CHR 0xE2, CHR 0x8F, CHR 0xB3] @ '' Not Available Yet'',
                   title = ''Digital release: '' @ dateOnly @ '' '' @
                     [CHR 0xE2, CHR 0x80, CHR 0x94] @ '' Check back after that date!'',
                   externalUrl = tmdbUrl\<rparr>]))"

text \<open>Lines 93-154: the body of the \<^verbatim>\<open>try\<close>. An identifier of 0 is falsy, as \<^verbatim>\<open>null\<close> is.\<close>

definition tryBlock :: "world \<Rightarrow> string \<Rightarrow> stream list io" where
  "tryBlock w imdbId =
     (case getTmdbIdFromImdb w imdbId of
        (Inl e, calls) \<Rightarrow> (Inl e, calls)
      | (Inr tmdbId, calls) \<Rightarrow>
          (case (case tmdbId of None \<Rightarrow> None | Some n \<Rightarrow> if n = 0 then None else Some n) of
             None \<Rightarrow>
               (Inr [\<lparr>name = ''No TMDB match'', title = ''No TMDB match for '' @ imdbId,
                      externalUrl = ''https://www.themoviedb.org''\<rparr>],
                calls)
           | Some n \<Rightarrow>
               (case getDigitalReleaseDate w n of
                  (Inl e, calls') \<Rightarrow> (Inl e, calls @ calls')
                | (Inr plannedDate, calls') \<Rightarrow>
                    (Inr (formatDate w
                            (''https://www.themoviedb.org/movie/'' @ numberToString n)
                            plannedDate),
                     calls @ calls'))))"

text \<open>Lines 70-166. The \<^verbatim>\<open>catch\<close> turns whatever the body throws into an entry.\<close>

definition streamHandler :: "world \<Rightarrow> StreamArgs \<Rightarrow> stream list io" where
  "streamHandler w args =
     (if TMDB_API_KEY w = [] then
        (Inr [\<lparr>name = ''Configuration error'', title = ''TMDB_API_KEY is not set'',
               externalUrl = ''https://www.themoviedb.org''\<rparr>],
         [])
      else if args_type args \<noteq> ''movie'' then (Inr [], [])
      else
        (case first (split_str CHR '':'' (args_id args)) of
           None \<Rightarrow> (Inr [], [])
         | Some imdbId \<Rightarrow>
             if imdbId = [] \<or> \<not> startsWith imdbId ''tt'' then (Inr [], [])
             else
               (case tryBlock w imdbId of
                  (Inl e, calls) \<Rightarrow>
                    (Inr [\<lparr>name = ''TMDB error'', title = ''Failed to fetch release data'',
                           externalUrl = ''https://www.themoviedb.org''\<rparr>],
                     calls)
                | (Inr streams, calls) \<Rightarrow> (Inr streams, calls))))"

section \<open>A date parser and sample worlds\<close>

text \<open>
  The two forms of the language's date-time string format that the provider's data and
  the examples use, \<^verbatim>\<open>YYYY-MM-DD\<close> and \<^verbatim>\<open>YYYY-MM-DDTHH:mm:ss.sssZ\<close>, both in UTC,
  as milliseconds since 1970-01-01. Every other string is NaN here. The theorems below
  hold for any parser; this one runs them on examples.
\<close>

definition decimalOf :: "string \<Rightarrow> nat option" where
  "decimalOf s =
     (if s = [] \<or> \<not> list_all (\<lambda>c. 48 \<le> (of_char c :: nat) \<and> (of_char c :: nat) \<le> 57) s
      then None
      else Some (foldl (\<lambda>acc c. 10 * acc + (of_char c - 48)) 0 s))"

definition daysInMonth :: "nat \<Rightarrow> nat \<Rightarrow> nat" where
  "daysInMonth y m =
     (if m = 2 then (if y mod 4 = 0 \<and> (y mod 100 \<noteq> 0 \<or> y mod 400 = 0) then 29 else 28)
      else if m = 4 \<or> m = 6 \<or> m = 9 \<or> m = 11 then 30 else 31)"

definition daysFromCivil :: "int \<Rightarrow> int \<Rightarrow> int \<Rightarrow> int" where
  "daysFromCivil y m d =
     (let y' = (if m \<le> 2 then y - 1 else y);
          era = y' div 400;
          yoe = y' - era * 400;
          doy = (153 * (if m > 2 then m - 3 else m + 9) + 2) div 5 + d - 1;
          doe = yoe * 365 + yoe div 4 - yoe div 100 + doy
      in era * 146097 + doe - 719468)"

definition isoDate :: "string \<Rightarrow> int option" where
  "isoDate s =
     (if length s = 10 \<and> s ! 4 = CHR ''-'' \<and> s ! 7 = CHR ''-'' then
        (case (decimalOf (take 4 s), decimalOf (take 2 (drop 5 s)), decimalOf (drop 8 s)) of
           (Some y, Some m, Some d) \<Rightarrow>
             if 1 \<le> m \<and> m \<le> 12 \<and> 1 \<le> d \<and> d \<le> daysInMonth y m
             then Some (daysFromCivil (int y) (int m) (int d)) else None
         | _ \<Rightarrow> None)
      else None)"

definition isoTime :: "string \<Rightarrow> int option" where
  "isoTime s =
     (if length s = 13 \<and> s ! 2 = CHR '':'' \<and> s ! 5 = CHR '':'' \<and> s ! 8 = CHR ''.'' \<and>
         s ! 12 = CHR ''Z'' then
        (case (decimalOf (take 2 s), decimalOf (take 2 (drop 3 s)),
               decimalOf (take 2 (drop 6 s)), decimalOf (take 3 (drop 9 s))) of
           (Some h, Some mi, Some sec, Some ms) \<Rightarrow>
             if (h \<le> 23 \<and> mi \<le> 59 \<and> sec \<le> 59) \<or> (h = 24 \<and> mi = 0 \<and> sec = 0 \<and> ms = 0)
             then Some (int (((h * 60 + mi) * 60 + sec) * 1000 + ms)) else None
         | _ \<Rightarrow> None)
      else None)"

definition isoDateTime :: "string \<Rightarrow> int option" where
  "isoDateTime s =
     (if length s = 10 then map_option (\<lambda>d. d * 86400000) (isoDate s)
      else if length s = 24 \<and> s ! 10 = CHR ''T'' then
        (case (isoDate (take 10 s), isoTime (drop 11 s)) of
           (Some d, Some t) \<Rightarrow> Some (d * 86400000 + t)
         | _ \<Rightarrow> None)
      else None)"

text \<open>
  A provider that knows one film: the lookup of \<^verbatim>\<open>tt1234\<close> gives the identifier 603,
  and the release-dates call for 603 gives the entries \<open>rs\<close>. Any other URL is not found
  (status 404). The credential is \<^verbatim>\<open>k\<close>; the clock reads 2024-05-15T00:00:00Z. The
  sort of this runtime leaves a list in place when the comparator does not order it.
\<close>

definition sample_find :: "string \<Rightarrow> TmdbFindResponse response option" where
  "sample_find url =
     (if url = ''https://api.themoviedb.org/3/find/tt1234?api_key=k&external_source=imdb_id''
      then Some (Response 200 (Some \<lparr>movie_results = Some [\<lparr>result_id = 603\<rparr>]\<rparr>))
      else Some (Response 404 None))"

definition sample_release ::
    "region_result list \<Rightarrow> string \<Rightarrow> TmdbReleaseDatesResponse response option" where
  "sample_release rs url =
     (if url = ''https://api.themoviedb.org/3/movie/603/release_dates?api_key=k''
      then Some (Response 200 (Some \<lparr>results = Some rs\<rparr>))
      else Some (Response 404 None))"

definition in_place :: "string list \<Rightarrow> nat list" where
  "in_place xs = []"

definition sample_world :: "region_result list \<Rightarrow> world" where
  "sample_world rs =
     \<lparr>env_TMDB_API_KEY = Some ''k'', fetch_find = sample_find,
      fetch_release = sample_release rs, getTime = isoDateTime, now = 1715731200000,
      sortOrder = in_place\<rparr>"

text \<open>
  The runtime's parser also reads a date written as month name, day and year, in the local
  time zone. This one reads the two such dates of the examples, at UTC.
\<close>

definition legacyDates :: "string \<Rightarrow> int option" where
  "legacyDates s =
     (if s = ''OCT 5 2023'' then Some 1696464000000
      else if s = ''OCT 5 2024'' then Some 1728086400000
      else isoDateTime s)"

definition digital :: "string \<Rightarrow> release" where
  "digital d = \<lparr>release_date = d, release_type = 4\<rparr>"

definition region :: "string \<Rightarrow> release list \<Rightarrow> region_result" where
  "region c ds = \<lparr>iso_3166_1 = c, release_dates = Some ds\<rparr>"

section \<open>Notions the properties are stated with\<close>

text \<open>The entries of a decoded answer (line 51: a missing list is the empty list).\<close>

definition entries :: "TmdbReleaseDatesResponse \<Rightarrow> region_result list" where
  "entries data = (case results data of None \<Rightarrow> [] | Some xs \<Rightarrow> xs)"

definition releasesOf :: "region_result \<Rightarrow> release list" where
  "releasesOf r = (case release_dates r of None \<Rightarrow> [] | Some ds \<Rightarrow> ds)"

definition taggedUS :: "region_result \<Rightarrow> bool" where
  "taggedUS r = (iso_3166_1 r = ''US'')"

text \<open>
  The candidate set the resolver settles on: the digital dates of the first entry tagged
  US when there are any, and the digital dates of all entries otherwise.
\<close>

definition chosenDates :: "region_result list \<Rightarrow> string list" where
  "chosenDates rs =
     (let preferred = getDigitalDates (take 1 (filter taggedUS rs));
          unrestricted = getDigitalDates rs
      in if preferred \<noteq> [] then preferred else unrestricted)"

definition parses :: "(string \<Rightarrow> int option) \<Rightarrow> string \<Rightarrow> bool" where
  "parses gt d = (gt d \<noteq> None)"

text \<open>Both dates parse and the first is not later than the second.\<close>

definition notLater :: "(string \<Rightarrow> int option) \<Rightarrow> string \<Rightarrow> string \<Rightarrow> bool" where
  "notLater gt a b =
     (case gt a of
        None \<Rightarrow> False
      | Some x \<Rightarrow> (case gt b of None \<Rightarrow> False | Some y \<Rightarrow> x \<le> y))"

text \<open>
  Entries in which one US entry without a digital date precedes another with one; entries
  whose first digital date does not parse; entries in which a date that does not parse
  stands between a later and an earlier one.
\<close>

definition two_US_entries :: "region_result list" where
  "two_US_entries =
     [region ''US'' [\<lparr>release_date = ''2024-03-01'', release_type = 3\<rparr>],
      region ''US'' [digital ''2024-06-01''],
      region ''FR'' [digital ''2024-04-01'']]"

definition unparsed_first_entries :: "region_result list" where
  "unparsed_first_entries = [region ''US'' [digital ''NOT SET'', digital ''2024-01-01'']]"

definition unparsed_between_entries :: "region_result list" where
  "unparsed_between_entries =
     [region ''US'' [digital ''2024-06-01'', digital ''NOT SET'', digital ''2024-04-01'']]"

text \<open>The part of an identifier in front of its first colon.\<close>

definition beforeColon :: "string \<Rightarrow> string" where
  "beforeColon s = takeWhile (\<lambda>c. c \<noteq> CHR '':'') s"

text \<open>
  A request resolves to a date: the credential is configured, the request is for a movie
  with a \<^verbatim>\<open>tt\<close> identifier, the lookup gives the (non-zero) identifier \<open>tmdbId\<close>, and
  the release-date resolver gives \<open>plannedDate\<close>.
\<close>

definition resolvesTo :: "world \<Rightarrow> StreamArgs \<Rightarrow> int \<Rightarrow> string \<Rightarrow> bool" where
  "resolvesTo w args tmdbId plannedDate =
     (TMDB_API_KEY w \<noteq> [] \<and> args_type args = ''movie'' \<and> startsWith (args_id args) ''tt'' \<and>
      fst (getTmdbIdFromImdb w (beforeColon (args_id args))) = Inr (Some tmdbId) \<and>
      tmdbId \<noteq> 0 \<and>
      fst (getDigitalReleaseDate w tmdbId) = Inr (Some plannedDate))"

text \<open>
  A provider call fails: the request is rejected (network failure), the status is not a
  success, or the body is not JSON.
\<close>

definition fails :: "'a response option \<Rightarrow> bool" where
  "fails x = (case x of None \<Rightarrow> True | Some r \<Rightarrow> \<not> ok r \<or> json r = None)"

text \<open>
  Providers for the examples: one that finds nothing, one that cannot be reached, and one
  whose body is not JSON.
\<close>

definition no_match_find :: "string \<Rightarrow> TmdbFindResponse response option" where
  "no_match_find url = Some (Response 200 (Some \<lparr>movie_results = Some []\<rparr>))"

definition unreachable :: "string \<Rightarrow> 'a response option" where
  "unreachable url = None"

definition not_json :: "string \<Rightarrow> 'a response option" where
  "not_json url = Some (Response 200 None)"

section \<open>Facts about the string functions\<close>

lemma first_split_str:
  "first (split_str sep s) = Some (takeWhile (\<lambda>c. c \<noteq> sep) s)"
proof (induction s)
  case Nil
  show ?case by (simp add: first_def)
next
  case (Cons c cs)
  then show ?case by (cases "split_str sep cs") (auto simp: first_def)
qed

lemma startsWith_before_colon:
  "startsWith (takeWhile (\<lambda>c. c \<noteq> CHR '':'') s) ''tt'' = startsWith s ''tt''"
proof (cases s)
  case Nil
  then show ?thesis by (simp add: startsWith_def)
next
  case (Cons a t)
  then show ?thesis by (cases t) (auto simp: startsWith_def)
qed

lemma startsWith_nonempty: "startsWith s ''tt'' \<Longrightarrow> s \<noteq> []"
  by (auto simp: startsWith_def)


section \<open>The gates in front of the provider calls\<close>

text \<open>
  What the handler does in terms of the identifier as received: the part in front of the
  first colon decides, and the \<^verbatim>\<open>catch\<close> closes the \<^verbatim>\<open>try\<close>.
\<close>

lemma streamHandler_unfold:
  "streamHandler w args =
     (if TMDB_API_KEY w = [] then
        (Inr [\<lparr>name = ''Configuration error'', title = ''TMDB_API_KEY is not set'',
               externalUrl = ''https://www.themoviedb.org''\<rparr>], [])
      else if args_type args \<noteq> ''movie'' \<or> \<not> startsWith (args_id args) ''tt'' then (Inr [], [])
      else
        (case tryBlock w (beforeColon (args_id args)) of
           (Inl e, calls) \<Rightarrow>
             (Inr [\<lparr>name = ''TMDB error'', title = ''Failed to fetch release data'',
                    externalUrl = ''https://www.themoviedb.org''\<rparr>], calls)
         | (Inr streams, calls) \<Rightarrow> (Inr streams, calls)))"
  using startsWith_nonempty [of "beforeColon (args_id args)"]
  by (auto simp: streamHandler_def first_split_str startsWith_before_colon beforeColon_def)

text \<open>
  C6. When the API credential is not configured (the environment variable is unset or
  empty), the handler answers with exactly the configuration-error entry and requests
  nothing, whatever the media type, the identifier and the provider are.
\<close>

theorem streamHandler_configuration_error:
  assumes "env_TMDB_API_KEY w = None \<or> env_TMDB_API_KEY w = Some []"
  shows "streamHandler w args =
           (Inr [\<lparr>name = ''Configuration error'', title = ''TMDB_API_KEY is not set'',
                  externalUrl = ''https://www.themoviedb.org''\<rparr>], [])"
proof -
  from assms have "TMDB_API_KEY w = []"
    by (auto simp: TMDB_API_KEY_def)
  then show ?thesis
    by (simp add: streamHandler_def)
qed

theorem streamHandler_configuration_error_witness:
  "streamHandler ((sample_world [])\<lparr>env_TMDB_API_KEY := None\<rparr>)
       \<lparr>args_type = ''series'', args_id = ''tt1234''\<rparr> =
     (Inr [\<lparr>name = ''Configuration error'', title = ''TMDB_API_KEY is not set'',
            externalUrl = ''https://www.themoviedb.org''\<rparr>], [])
   \<and> streamHandler ((sample_world [])\<lparr>env_TMDB_API_KEY := Some []\<rparr>)
       \<lparr>args_type = ''movie'', args_id = ''tt1234''\<rparr> =
     (Inr [\<lparr>name = ''Configuration error'', title = ''TMDB_API_KEY is not set'',
            externalUrl = ''https://www.themoviedb.org''\<rparr>], [])"
proof
  show "streamHandler ((sample_world [])\<lparr>env_TMDB_API_KEY := None\<rparr>)
       \<lparr>args_type = ''series'', args_id = ''tt1234''\<rparr> =
     (Inr [\<lparr>name = ''Configuration error'', title = ''TMDB_API_KEY is not set'',
            externalUrl = ''https://www.themoviedb.org''\<rparr>], [])"
    by (rule streamHandler_configuration_error) simp
  show "streamHandler ((sample_world [])\<lparr>env_TMDB_API_KEY := Some []\<rparr>)
       \<lparr>args_type = ''movie'', args_id = ''tt1234''\<rparr> =
     (Inr [\<lparr>name = ''Configuration error'', title = ''TMDB_API_KEY is not set'',
            externalUrl = ''https://www.themoviedb.org''\<rparr>], [])"
    by (rule streamHandler_configuration_error) simp
qed

text \<open>
  C7. With the credential configured, a request whose media type is not \<^verbatim>\<open>movie\<close> or
  whose identifier does not start with \<^verbatim>\<open>tt\<close> gets the empty list, and the list of
  requested URLs is empty: nothing was sent to the provider.
\<close>

theorem streamHandler_empty_without_call:
  assumes "TMDB_API_KEY w \<noteq> []"
    and "args_type args \<noteq> ''movie'' \<or> \<not> startsWith (args_id args) ''tt''"
  shows "streamHandler w args = (Inr [], [])"
  using assms by (simp add: streamHandler_unfold)

theorem streamHandler_empty_without_call_witness:
  "streamHandler (sample_world []) \<lparr>args_type = ''series'', args_id = ''tt1234''\<rparr> = (Inr [], [])
   \<and> streamHandler (sample_world []) \<lparr>args_type = ''movie'', args_id = ''kitsu:7''\<rparr> = (Inr [], [])"
proof
  show "streamHandler (sample_world []) \<lparr>args_type = ''series'', args_id = ''tt1234''\<rparr> = (Inr [], [])"
    by (rule streamHandler_empty_without_call)
      (simp_all add: sample_world_def TMDB_API_KEY_def)
  show "streamHandler (sample_world []) \<lparr>args_type = ''movie'', args_id = ''kitsu:7''\<rparr> = (Inr [], [])"
    by (rule streamHandler_empty_without_call)
      (simp_all add: sample_world_def TMDB_API_KEY_def startsWith_def)
qed

section \<open>The release-date resolver\<close>

lemmas resolver_defs =
  getDigitalReleaseDate_def fetchJson_def sample_world_def sample_release_def
  release_dates_url_def TMDB_BASE_URL_def TMDB_API_KEY_def numberToString_def digits.simps
  digit_char_def ok_def pickDigitalDate_def getDigitalDates_def arraySort_def
  consistentComparator_def sortBy_def sortCompare_def compareDates_def first_def region_def
  digital_def

lemmas date_defs =
  isoDateTime_def isoDate_def isoTime_def decimalOf_def daysInMonth_def daysFromCivil_def

lemma find_take_filter:
  "(case List.find P xs of None \<Rightarrow> [] | Some r \<Rightarrow> [r]) = take 1 (filter P xs)"
  by (induction xs) auto

lemma getDigitalDates_iff:
  "d \<in> set (getDigitalDates items) \<longleftrightarrow>
     (\<exists>r \<in> set items. \<exists>rel \<in> set (releasesOf r).
        release_type rel = 4 \<and> release_date rel = d \<and> d \<noteq> [])"
  by (auto simp: getDigitalDates_def releasesOf_def split: option.splits)

lemma set_insertBy: "set (insertBy cmp x ys) = insert x (set ys)"
  by (induction ys) auto

lemma set_sortBy: "set (sortBy cmp xs) = set xs"
  by (induction xs) (auto simp: sortBy_def set_insertBy)

lemma map_snd_ranked: "map snd (ranked rs xs) = xs"
  by (induction rs xs rule: ranked.induct) auto

lemma set_reorder: "set (reorder ranks xs) = set xs"
proof -
  have "set (reorder ranks xs) = snd ` set (ranked ranks xs)"
    by (simp add: reorder_def)
  also have "\<dots> = set (map snd (ranked ranks xs))"
    by simp
  finally show ?thesis
    by (simp add: map_snd_ranked)
qed

lemma mset_reorder: "mset (reorder ranks xs) = mset xs"
proof -
  have "mset (reorder ranks xs) = image_mset snd (mset (ranked ranks xs))"
    by (simp add: reorder_def)
  also have "\<dots> = mset (map snd (ranked ranks xs))"
    by simp
  finally show ?thesis
    by (simp add: map_snd_ranked)
qed

lemma ranked_append:
  "length rs = length xs \<Longrightarrow> ranked (rs @ rs') (xs @ xs') = ranked rs xs @ ranked rs' xs'"
  by (induction rs xs rule: list_induct2) auto

lemma ranked_Suc:
  "length rs = length xs \<Longrightarrow> ranked (map Suc rs) xs = map (apfst Suc) (ranked rs xs)"
  by (induction rs xs rule: list_induct2) auto

lemma insort_apfst_Suc:
  "insort_key fst (apfst Suc p) (map (apfst Suc) ps) = map (apfst Suc) (insort_key fst p ps)"
  by (induction ps) auto

lemma sort_apfst_Suc:
  "sort_key fst (map (apfst Suc) ps) = map (apfst Suc) (sort_key fst ps)"
  by (induction ps) (auto simp: insort_apfst_Suc)

lemma insort_after_zero:
  "0 < fst p \<Longrightarrow> insort_key fst p ((0::nat, y) # ps) = (0, y) # insort_key fst p ps"
  by simp

lemma sort_zero_first:
  "\<forall>p \<in> set ps. 0 < fst p \<Longrightarrow>
     sort_key fst (ps @ (0::nat, y) # qs) = (0, y) # sort_key fst (ps @ qs)"
proof (induction ps)
  case Nil
  show ?case by (cases "sort_key fst qs") auto
next
  case (Cons p ps)
  then show ?case by simp
qed

lemma ranked_full: "\<exists>rs'. length rs' = length xs \<and> ranked rs' xs = ranked rs xs"
proof -
  have "length (map fst (ranked rs xs)) = length xs"
    by (metis length_map map_snd_ranked)
  moreover have "ranked (map fst (ranked rs xs)) xs = ranked rs xs"
    by (induction rs xs rule: ranked.induct) auto
  ultimately show ?thesis by blast
qed

text \<open>Every arrangement of a list is its reordering by some ranks.\<close>

lemma reorder_reaches: "mset ys = mset xs \<Longrightarrow> \<exists>ranks. reorder ranks xs = ys"
proof (induction ys arbitrary: xs)
  case Nil
  then show ?case by (simp add: reorder_def)
next
  case (Cons y ys)
  then have "y \<in> set xs"
    by (metis list.set_intros(1) mset_eq_setD)
  then obtain as bs where xs: "xs = as @ y # bs"
    by (meson split_list)
  with Cons.prems have "mset ys = mset (as @ bs)"
    by simp
  from Cons.IH [OF this] obtain rs0 where "reorder rs0 (as @ bs) = ys"
    by blast
  moreover obtain rs where len: "length rs = length (as @ bs)"
    and same: "ranked rs (as @ bs) = ranked rs0 (as @ bs)"
    using ranked_full [of "as @ bs" rs0] by blast
  ultimately have ys: "reorder rs (as @ bs) = ys"
    by (simp add: reorder_def)
  let ?r1 = "map Suc (take (length as) rs)" and ?r2 = "map Suc (drop (length as) rs)"
  have l1: "length (take (length as) rs) = length as"
    using len by simp
  have l2: "length (drop (length as) rs) = length bs"
    using len by simp
  have split: "ranked rs (as @ bs) =
      ranked (take (length as) rs) as @ ranked (drop (length as) rs) bs"
    using ranked_append [OF l1, of "drop (length as) rs" bs] by simp
  have "ranked (?r1 @ 0 # ?r2) xs =
      map (apfst Suc) (ranked (take (length as) rs) as) @ (0, y) #
      map (apfst Suc) (ranked (drop (length as) rs) bs)"
    using ranked_append [of ?r1 as "0 # ?r2" "y # bs"] l1 l2
    by (simp add: xs ranked_Suc)
  moreover have "\<forall>p \<in> set (map (apfst Suc) (ranked (take (length as) rs) as)). 0 < fst p"
    by auto
  ultimately have "sort_key fst (ranked (?r1 @ 0 # ?r2) xs) =
      (0, y) # sort_key fst (map (apfst Suc) (ranked rs (as @ bs)))"
    by (simp add: sort_zero_first split)
  then have "reorder (?r1 @ 0 # ?r2) xs = y # reorder rs (as @ bs)"
    by (simp add: reorder_def sort_apfst_Suc comp_def)
  with ys show ?case by blast
qed

lemma set_arraySort: "set (arraySort order cmp xs) = set xs"
  by (simp add: arraySort_def set_sortBy set_reorder)

lemma arraySort_Nil_iff: "arraySort order cmp xs = [] \<longleftrightarrow> xs = []"
  using set_arraySort [of order cmp xs] by (metis set_empty)

lemma first_in_set: "first xs = Some x \<Longrightarrow> x \<in> set xs"
  by (auto simp: first_def split: list.splits)

lemma first_None_iff: "first xs = None \<longleftrightarrow> xs = []"
  by (auto simp: first_def split: list.splits)

lemma notLater_trans: "notLater gt a b \<Longrightarrow> notLater gt b c \<Longrightarrow> notLater gt a c"
  by (auto simp: notLater_def split: option.splits)

lemma notLater_refl: "parses gt a \<Longrightarrow> notLater gt a a"
  by (auto simp: notLater_def parses_def)

lemma not_sortCompare_le:
  assumes "parses gt x" and "parses gt y"
    and "\<not> sortCompare (compareDates gt) x y \<le> 0"
  shows "notLater gt y x"
  using assms by (auto simp: sortCompare_def compareDates_def notLater_def parses_def)

lemma sortCompare_le:
  assumes "parses gt x" and "parses gt y"
    and "sortCompare (compareDates gt) x y \<le> 0"
  shows "notLater gt x y"
  using assms by (auto simp: sortCompare_def compareDates_def notLater_def parses_def)

lemma sorted_insertBy:
  assumes "parses gt x" and "list_all (parses gt) ys"
    and "sorted_wrt (notLater gt) ys"
  shows "sorted_wrt (notLater gt) (insertBy (compareDates gt) x ys)"
  using assms
proof (induction ys)
  case Nil
  then show ?case by simp
next
  case (Cons y ys)
  show ?case
  proof (cases "sortCompare (compareDates gt) x y \<le> 0")
    case True
    with Cons.prems have xy: "notLater gt x y"
      by (simp add: sortCompare_le)
    have "notLater gt x z" if "z \<in> set ys" for z
      using xy Cons.prems(3) that notLater_trans by fastforce
    with xy Cons.prems(3) True show ?thesis by simp
  next
    case False
    with Cons.prems have yx: "notLater gt y x"
      by (simp add: not_sortCompare_le)
    from Cons have "sorted_wrt (notLater gt) (insertBy (compareDates gt) x ys)"
      by simp
    with yx Cons.prems(3) False show ?thesis
      by (auto simp: set_insertBy)
  qed
qed

lemma sorted_sortBy:
  "list_all (parses gt) xs \<Longrightarrow> sorted_wrt (notLater gt) (sortBy (compareDates gt) xs)"
proof (induction xs)
  case Nil
  then show ?case by (simp add: sortBy_def)
next
  case (Cons x xs)
  then have "list_all (parses gt) (sortBy (compareDates gt) xs)"
    by (simp add: list_all_iff set_sortBy)
  with Cons show ?case
    using sorted_insertBy [of gt x "sortBy (compareDates gt) xs"]
    by (simp add: sortBy_def)
qed

text \<open>Dates that all parse are ordered consistently, so their sort is the stable one.\<close>

lemma parsed_time:
  assumes "list_all (parses gt) xs" and "a \<in> set xs"
  obtains x where "gt a = Some x"
  using assms by (auto simp: list_all_iff parses_def)

lemma consistent_when_parsed:
  assumes "list_all (parses gt) xs"
  shows "consistentComparator (sortCompare (compareDates gt)) xs"
  unfolding consistentComparator_def list_all_iff
proof (intro ballI conjI impI)
  fix a
  assume "a \<in> set xs"
  with assms obtain x where x: "gt a = Some x"
    by (rule parsed_time)
  show "sortCompare (compareDates gt) a a = 0"
    using x by (simp add: sortCompare_def compareDates_def)
  fix b
  assume "b \<in> set xs"
  with assms obtain y where y: "gt b = Some y"
    by (rule parsed_time)
  show "sortCompare (compareDates gt) b a = 0" if "sortCompare (compareDates gt) a b = 0"
    using that x y by (simp add: sortCompare_def compareDates_def)
  fix d
  assume "d \<in> set xs"
  with assms obtain z where z: "gt d = Some z"
    by (rule parsed_time)
  show "sortCompare (compareDates gt) a d = 0"
    if "sortCompare (compareDates gt) a b = 0 \<and> sortCompare (compareDates gt) b d = 0"
    using that x y z by (simp add: sortCompare_def compareDates_def)
  show "sortCompare (compareDates gt) a d < 0"
    if "sortCompare (compareDates gt) a b < 0 \<and> sortCompare (compareDates gt) b d < 0"
    using that x y z by (simp add: sortCompare_def compareDates_def)
  show "0 < sortCompare (compareDates gt) a d"
    if "0 < sortCompare (compareDates gt) a b \<and> 0 < sortCompare (compareDates gt) b d"
    using that x y z by (simp add: sortCompare_def compareDates_def)
qed

lemma arraySort_parsed:
  "list_all (parses gt) xs \<Longrightarrow> arraySort order (compareDates gt) xs = sortBy (compareDates gt) xs"
  by (simp add: arraySort_def consistent_when_parsed)

lemma first_arraySort_earliest:
  assumes "list_all (parses gt) xs"
    and "first (arraySort order (compareDates gt) xs) = Some d"
  shows "list_all (notLater gt d) xs"
proof -
  from assms obtain rest where srt: "sortBy (compareDates gt) xs = d # rest"
    by (auto simp: arraySort_parsed first_def split: list.splits)
  from assms(1) have "sorted_wrt (notLater gt) (d # rest)"
    using sorted_sortBy [of gt xs] by (simp add: srt)
  moreover have mem: "set xs = insert d (set rest)"
    using set_sortBy [of "compareDates gt" xs] by (simp add: srt)
  moreover from mem assms(1) have "notLater gt d d"
    by (auto simp: list_all_iff notLater_refl)
  ultimately show ?thesis
    by (auto simp: list_all_iff)
qed

lemma pickDigitalDate_eq:
  "pickDigitalDate order gt data =
     first (arraySort order (compareDates gt) (chosenDates (entries data)))"
proof -
  have "chosenDates (entries data) = [] \<Longrightarrow>
      first (arraySort order (compareDates gt) (chosenDates (entries data))) = None"
    by (simp add: first_None_iff arraySort_Nil_iff)
  then show ?thesis
    by (auto simp: pickDigitalDate_def chosenDates_def entries_def Let_def find_take_filter
        taggedUS_def [abs_def])
qed

lemma preferred_subset:
  "set (getDigitalDates (take 1 (filter P rs))) \<subseteq> set (getDigitalDates rs)"
proof
  fix d
  assume "d \<in> set (getDigitalDates (take 1 (filter P rs)))"
  then obtain r rel where "r \<in> set (take 1 (filter P rs))" and
    rel: "rel \<in> set (releasesOf r)" "release_type rel = 4" "release_date rel = d" "d \<noteq> []"
    unfolding getDigitalDates_iff by blast
  then have "r \<in> set rs"
    by (auto dest: in_set_takeD)
  with rel show "d \<in> set (getDigitalDates rs)"
    unfolding getDigitalDates_iff by blast
qed

lemma chosenDates_Nil_iff: "chosenDates rs = [] \<longleftrightarrow> getDigitalDates rs = []"
  using preferred_subset [of taggedUS rs]
  by (auto simp: chosenDates_def Let_def)

lemma pickDigitalDate_nonempty: "pickDigitalDate order gt data = Some d \<Longrightarrow> d \<noteq> []"
proof -
  assume "pickDigitalDate order gt data = Some d"
  then have "d \<in> set (chosenDates (entries data))"
    by (auto simp: pickDigitalDate_eq set_arraySort dest: first_in_set)
  then have "d \<in> set (getDigitalDates (entries data))"
    using preferred_subset [of taggedUS "entries data"]
    by (auto simp: chosenDates_def Let_def split: if_splits)
  then show ?thesis
    unfolding getDigitalDates_iff by blast
qed

lemma getDigitalReleaseDate_delivered:
  assumes "fetch_release w (release_dates_url (TMDB_API_KEY w) tmdbId) =
             Some (Response st (Some data))"
    and "200 \<le> st" and "st \<le> 299"
  shows "getDigitalReleaseDate w tmdbId =
           (Inr (pickDigitalDate (sortOrder w) (getTime w) data),
            [release_dates_url (TMDB_API_KEY w) tmdbId])"
  using assms by (simp add: getDigitalReleaseDate_def fetchJson_def ok_def)

lemma unique_US_all:
  "length (filter taggedUS rs) \<le> 1 \<Longrightarrow> take 1 (filter taggedUS rs) = filter taggedUS rs"
  by simp

lemma sample_times:
  "isoDateTime ''2024-01-01'' = Some 1704067200000"
  "isoDateTime ''2024-04-01'' = Some 1711929600000"
  "isoDateTime ''2024-05-01'' = Some 1714521600000"
  "isoDateTime ''2024-06-01'' = Some 1717200000000"
  "isoDateTime ''2024-07-15'' = Some 1721001600000"
  "isoDateTime ''NOT SET'' = None"
  by (simp_all add: date_defs)

text \<open>
  C1, amended. When the provider delivers a list of region entries, the resolver looks
  only at releases of type code 4 with a non-empty date. Its preferred set holds those of
  the first entry tagged US (of all US entries when at most one entry is tagged US), its
  unrestricted set those of all entries; it chooses the preferred set when that is not
  empty and the unrestricted set otherwise. It returns the date that the runtime's sort,
  ascending by time, puts first in the chosen set, absent exactly when both sets are
  empty. That date is the first in stable ascending order whenever the comparator orders
  the chosen dates consistently (otherwise the order is the runtime's); it belongs to the
  chosen set and, when every date of the chosen set parses, no date of the chosen set is
  earlier.
\<close>

theorem getDigitalReleaseDate_earliest_of_chosen:
  assumes "fetch_release w (release_dates_url (TMDB_API_KEY w) tmdbId) =
             Some (Response st (Some data))"
    and "200 \<le> st" and "st \<le> 299"
  shows "\<exists>res. fst (getDigitalReleaseDate w tmdbId) = Inr res
     \<and> res = first (arraySort (sortOrder w) (compareDates (getTime w))
                (chosenDates (entries data)))
     \<and> (consistentComparator (sortCompare (compareDates (getTime w)))
            (chosenDates (entries data)) \<longrightarrow>
          res = first (sortBy (compareDates (getTime w)) (chosenDates (entries data))))
     \<and> (res = None \<longleftrightarrow>
          getDigitalDates (take 1 (filter taggedUS (entries data))) = [] \<and>
          getDigitalDates (entries data) = [])
     \<and> (\<forall>d. res = Some d \<longrightarrow>
          d \<in> set (chosenDates (entries data)) \<and>
          (list_all (parses (getTime w)) (chosenDates (entries data)) \<longrightarrow>
             list_all (notLater (getTime w) d) (chosenDates (entries data))))
     \<and> (\<forall>d. d \<in> set (getDigitalDates (entries data)) \<longleftrightarrow>
          (\<exists>r \<in> set (entries data). \<exists>rel \<in> set (releasesOf r).
             release_type rel = 4 \<and> release_date rel = d \<and> d \<noteq> []))
     \<and> (length (filter taggedUS (entries data)) \<le> 1 \<longrightarrow>
          chosenDates (entries data) =
            (if getDigitalDates (filter taggedUS (entries data)) \<noteq> []
             then getDigitalDates (filter taggedUS (entries data))
             else getDigitalDates (entries data)))"
proof -
  let ?res = "pickDigitalDate (sortOrder w) (getTime w) data"
  let ?chosen = "chosenDates (entries data)"
  let ?sorted = "arraySort (sortOrder w) (compareDates (getTime w)) ?chosen"
  have run: "fst (getDigitalReleaseDate w tmdbId) = Inr ?res"
    using getDigitalReleaseDate_delivered [OF assms] by simp
  have eq: "?res = first ?sorted"
    by (rule pickDigitalDate_eq)
  have none: "?res = None \<longleftrightarrow>
      getDigitalDates (take 1 (filter taggedUS (entries data))) = [] \<and>
      getDigitalDates (entries data) = []"
    using preferred_subset [of taggedUS "entries data"]
    by (auto simp: eq first_None_iff arraySort_Nil_iff chosenDates_Nil_iff)
  have mem: "d \<in> set ?chosen" if "?res = Some d" for d
    using that by (auto simp: eq set_arraySort dest: first_in_set)
  have early: "list_all (notLater (getTime w) d) ?chosen"
    if "?res = Some d" and "list_all (parses (getTime w)) ?chosen" for d
    using that first_arraySort_earliest [of "getTime w" ?chosen "sortOrder w" d]
    by (simp add: eq)
  have uniq: "?chosen =
      (if getDigitalDates (filter taggedUS (entries data)) \<noteq> []
       then getDigitalDates (filter taggedUS (entries data))
       else getDigitalDates (entries data))"
    if "length (filter taggedUS (entries data)) \<le> 1"
    using unique_US_all [OF that] by (simp add: chosenDates_def Let_def)
  show ?thesis
  proof (intro exI [of _ ?res] conjI allI impI)
    show "fst (getDigitalReleaseDate w tmdbId) = Inr ?res" by (rule run)
    show "?res = first ?sorted" by (rule eq)
    show "?res = first (sortBy (compareDates (getTime w)) ?chosen)"
      if "consistentComparator (sortCompare (compareDates (getTime w))) ?chosen"
      using that by (simp add: eq arraySort_def)
    show "?res = None \<longleftrightarrow>
      getDigitalDates (take 1 (filter taggedUS (entries data))) = [] \<and>
      getDigitalDates (entries data) = []" by (rule none)
    show "d \<in> set ?chosen" if "?res = Some d" for d by (rule mem [OF that])
    show "list_all (notLater (getTime w) d) ?chosen"
      if "?res = Some d" and "list_all (parses (getTime w)) ?chosen" for d
      by (rule early [OF that])
    show "d \<in> set (getDigitalDates (entries data)) \<longleftrightarrow>
          (\<exists>r \<in> set (entries data). \<exists>rel \<in> set (releasesOf r).
             release_type rel = 4 \<and> release_date rel = d \<and> d \<noteq> [])" for d
      by (rule getDigitalDates_iff)
    show "?chosen =
      (if getDigitalDates (filter taggedUS (entries data)) \<noteq> []
       then getDigitalDates (filter taggedUS (entries data))
       else getDigitalDates (entries data))"
      if "length (filter taggedUS (entries data)) \<le> 1"
      by (rule uniq [OF that])
  qed
qed

theorem getDigitalReleaseDate_earliest_of_chosen_witness:
  "fst (getDigitalReleaseDate
          (sample_world [region ''US'' [digital ''2024-05-01'', digital ''2024-06-01''],
                         region ''FR'' [digital ''2024-04-01'']]) 603) =
     Inr (Some ''2024-05-01'')
   \<and> fst (getDigitalReleaseDate (sample_world [region ''FR'' [digital ''2024-07-15'']]) 603) =
     Inr (Some ''2024-07-15'')"
proof
  let ?rs = "[region ''US'' [digital ''2024-05-01'', digital ''2024-06-01''],
              region ''FR'' [digital ''2024-04-01'']]"
  have "fetch_release (sample_world ?rs)
          (release_dates_url (TMDB_API_KEY (sample_world ?rs)) 603) =
        Some (Response 200 (Some \<lparr>results = Some ?rs\<rparr>))"
    by (simp add: resolver_defs)
  from getDigitalReleaseDate_earliest_of_chosen [OF this]
  obtain res where "fst (getDigitalReleaseDate (sample_world ?rs) 603) = Inr res"
    and "res = first (arraySort (sortOrder (sample_world ?rs))
                 (compareDates (getTime (sample_world ?rs)))
                 (chosenDates (entries \<lparr>results = Some ?rs\<rparr>)))"
    by auto
  moreover have "first (arraySort (sortOrder (sample_world ?rs))
                 (compareDates (getTime (sample_world ?rs)))
                 (chosenDates (entries \<lparr>results = Some ?rs\<rparr>))) = Some ''2024-05-01''"
    by (simp add: resolver_defs sample_times chosenDates_def entries_def taggedUS_def)
  ultimately show "fst (getDigitalReleaseDate (sample_world ?rs) 603) = Inr (Some ''2024-05-01'')"
    by simp
next
  let ?rs = "[region ''FR'' [digital ''2024-07-15'']]"
  have "fetch_release (sample_world ?rs)
          (release_dates_url (TMDB_API_KEY (sample_world ?rs)) 603) =
        Some (Response 200 (Some \<lparr>results = Some ?rs\<rparr>))"
    by (simp add: resolver_defs)
  from getDigitalReleaseDate_earliest_of_chosen [OF this]
  obtain res where "fst (getDigitalReleaseDate (sample_world ?rs) 603) = Inr res"
    and "res = first (arraySort (sortOrder (sample_world ?rs))
                 (compareDates (getTime (sample_world ?rs)))
                 (chosenDates (entries \<lparr>results = Some ?rs\<rparr>)))"
    by auto
  moreover have "first (arraySort (sortOrder (sample_world ?rs))
                 (compareDates (getTime (sample_world ?rs)))
                 (chosenDates (entries \<lparr>results = Some ?rs\<rparr>))) = Some ''2024-07-15''"
    by (simp add: resolver_defs sample_times chosenDates_def entries_def taggedUS_def)
  ultimately show "fst (getDigitalReleaseDate (sample_world ?rs) 603) = Inr (Some ''2024-07-15'')"
    by simp
qed

text \<open>
  C1 as stated fails in two ways. When two entries are tagged US and only the second has
  a digital date, the digital dates of the US region are not empty (2024-06-01), yet the
  resolver returns the date of another region (2024-04-01). And a date that does not
  parse compares as equal to every other date: of \<^verbatim>\<open>NOT SET\<close> and 2024-01-01 the sort
  (the comparator is consistent there, which fixes the order) keeps \<^verbatim>\<open>NOT SET\<close> first,
  which is not the earliest date; and where it stands between 2024-06-01 and 2024-04-01 a
  runtime that finds the list already in order, each neighbour comparing as equal,
  returns 2024-06-01, though 2024-04-01 is earlier.
\<close>

theorem getDigitalReleaseDate_two_US_counterexample:
  "getDigitalDates (filter taggedUS two_US_entries) = [''2024-06-01'']
   \<and> fst (getDigitalReleaseDate (sample_world two_US_entries) 603) = Inr (Some ''2024-04-01'')
   \<and> chosenDates unparsed_first_entries = [''NOT SET'', ''2024-01-01'']
   \<and> consistentComparator (sortCompare (compareDates isoDateTime)) [''NOT SET'', ''2024-01-01'']
   \<and> fst (getDigitalReleaseDate (sample_world unparsed_first_entries) 603) =
       Inr (Some ''NOT SET'')
   \<and> isoDateTime ''NOT SET'' = None
   \<and> isoDateTime ''2024-01-01'' = Some 1704067200000
   \<and> chosenDates unparsed_between_entries = [''2024-06-01'', ''NOT SET'', ''2024-04-01'']
   \<and> fst (getDigitalReleaseDate (sample_world unparsed_between_entries) 603) =
       Inr (Some ''2024-06-01'')
   \<and> \<not> notLater isoDateTime ''2024-06-01'' ''2024-04-01''"
proof (intro conjI)
  show "getDigitalDates (filter taggedUS two_US_entries) = [''2024-06-01'']"
    by (simp add: resolver_defs two_US_entries_def taggedUS_def)
  show "fst (getDigitalReleaseDate (sample_world two_US_entries) 603) = Inr (Some ''2024-04-01'')"
    by (simp add: resolver_defs sample_times two_US_entries_def)
  show "chosenDates unparsed_first_entries = [''NOT SET'', ''2024-01-01'']"
    by (simp add: chosenDates_def unparsed_first_entries_def taggedUS_def resolver_defs)
  show "consistentComparator (sortCompare (compareDates isoDateTime)) [''NOT SET'', ''2024-01-01'']"
    by (simp add: resolver_defs sample_times)
  show "fst (getDigitalReleaseDate (sample_world unparsed_first_entries) 603) =
       Inr (Some ''NOT SET'')"
    by (simp add: resolver_defs sample_times unparsed_first_entries_def)
  show "isoDateTime ''NOT SET'' = None"
    by (simp add: sample_times)
  show "isoDateTime ''2024-01-01'' = Some 1704067200000"
    by (simp add: sample_times)
  show "chosenDates unparsed_between_entries = [''2024-06-01'', ''NOT SET'', ''2024-04-01'']"
    by (simp add: chosenDates_def unparsed_between_entries_def taggedUS_def resolver_defs)
  show "fst (getDigitalReleaseDate (sample_world unparsed_between_entries) 603) =
       Inr (Some ''2024-06-01'')"
    by (simp add: resolver_defs sample_times unparsed_between_entries_def reorder_def
        in_place_def)
  show "\<not> notLater isoDateTime ''2024-06-01'' ''2024-04-01''"
    by (simp add: notLater_def sample_times)
qed

section \<open>The formatted answers\<close>

lemma snd_getTmdbIdFromImdb:
  "snd (getTmdbIdFromImdb w imdbId) = [find_url (TMDB_API_KEY w) imdbId]"
  by (simp add: getTmdbIdFromImdb_def fetchJson_def split: sum.splits)

lemma snd_getDigitalReleaseDate:
  "snd (getDigitalReleaseDate w tmdbId) = [release_dates_url (TMDB_API_KEY w) tmdbId]"
  by (simp add: getDigitalReleaseDate_def fetchJson_def split: sum.splits)

lemma getDigitalReleaseDate_nonempty:
  "fst (getDigitalReleaseDate w tmdbId) = Inr (Some d) \<Longrightarrow> d \<noteq> []"
  by (auto simp: getDigitalReleaseDate_def fetchJson_def
      split: option.splits if_splits dest: pickDigitalDate_nonempty)

lemma dateOnlyOf_eq:
  "dateOnlyOf d =
     (if takeWhile (\<lambda>c. c \<noteq> CHR ''T'') d = [] then d else takeWhile (\<lambda>c. c \<noteq> CHR ''T'') d)"
  by (simp add: dateOnlyOf_def first_split_str)

lemma tryBlock_resolved:
  assumes "fst (getTmdbIdFromImdb w imdbId) = Inr (Some tmdbId)" and "tmdbId \<noteq> 0"
    and "fst (getDigitalReleaseDate w tmdbId) = Inr plannedDate"
  shows "tryBlock w imdbId =
           (Inr (formatDate w (''https://www.themoviedb.org/movie/'' @ numberToString tmdbId)
                   plannedDate),
            [find_url (TMDB_API_KEY w) imdbId, release_dates_url (TMDB_API_KEY w) tmdbId])"
proof -
  obtain r1 c1 where g1: "getTmdbIdFromImdb w imdbId = (r1, c1)"
    by (cases "getTmdbIdFromImdb w imdbId")
  obtain r2 c2 where g2: "getDigitalReleaseDate w tmdbId = (r2, c2)"
    by (cases "getDigitalReleaseDate w tmdbId")
  from g1 assms(1) snd_getTmdbIdFromImdb [of w imdbId]
  have 1: "r1 = Inr (Some tmdbId)" "c1 = [find_url (TMDB_API_KEY w) imdbId]"
    by simp_all
  from g2 assms(3) snd_getDigitalReleaseDate [of w tmdbId]
  have 2: "r2 = Inr plannedDate" "c2 = [release_dates_url (TMDB_API_KEY w) tmdbId]"
    by simp_all
  show ?thesis
    using assms(2) by (simp add: tryBlock_def g1 g2 1 2)
qed

lemma streamHandler_resolved:
  assumes "resolvesTo w args tmdbId plannedDate"
  shows "streamHandler w args =
           (Inr (formatDate w (''https://www.themoviedb.org/movie/'' @ numberToString tmdbId)
                   (Some plannedDate)),
            [find_url (TMDB_API_KEY w) (beforeColon (args_id args)),
             release_dates_url (TMDB_API_KEY w) tmdbId])"
proof -
  from assms have gates: "TMDB_API_KEY w \<noteq> []" "args_type args = ''movie''"
      "startsWith (args_id args) ''tt''"
    and calls: "fst (getTmdbIdFromImdb w (beforeColon (args_id args))) = Inr (Some tmdbId)"
      "tmdbId \<noteq> 0" "fst (getDigitalReleaseDate w tmdbId) = Inr (Some plannedDate)"
    by (simp_all add: resolvesTo_def)
  show ?thesis
    by (simp add: streamHandler_unfold gates tryBlock_resolved [OF calls])
qed

lemma formatDate_unparseable:
  assumes "d \<noteq> []" and "getTime w d = None"
  shows "formatDate w url (Some d) =
           [\<lparr>name = ''Not yet available'', title = ''Planned digital release: '' @ dateOnlyOf d,
             externalUrl = url\<rparr>]"
  using assms by (simp add: formatDate_def)

lemma formatDate_released:
  assumes "d \<noteq> []" and "getTime w d = Some t" and "t \<le> now w"
  shows "formatDate w url (Some d) =
           [\<lparr>name = ''Digital release'', title = ''Released '' @ dateOnlyOf d,
             externalUrl = url\<rparr>]"
  using assms by (simp add: formatDate_def)

lemma formatDate_planned:
  assumes "d \<noteq> []" and "getTime w d = Some t" and "now w < t"
  shows "formatDate w url (Some d) =
           [\<lparr>name = [CHR 0xE2, CHR 0x8F, CHR 0xB3] @ '' Not Available Yet'',
             title = ''Digital release: '' @ dateOnlyOf d @ '' '' @
               [CHR 0xE2, CHR 0x80, CHR 0x94] @ '' Check back after that date!'',
             externalUrl = url\<rparr>]"
  using assms by (simp add: formatDate_def)

lemma sample_lookup:
  "fst (getTmdbIdFromImdb (sample_world rs) ''tt1234'') = Inr (Some 603)"
  by (simp add: getTmdbIdFromImdb_def fetchJson_def sample_world_def sample_find_def
      find_url_def TMDB_BASE_URL_def TMDB_API_KEY_def ok_def first_def)

lemma sample_gates:
  "TMDB_API_KEY (sample_world rs) = ''k''"
  "getTime (sample_world rs) = isoDateTime"
  "now (sample_world rs) = 1715731200000"
  by (simp_all add: sample_world_def TMDB_API_KEY_def)

lemma number_603: "numberToString 603 = ''603''"
  by (simp add: numberToString_def digits.simps digit_char_def)

lemma dateOnlyOf_whole:
  "CHR ''T'' \<notin> set d \<Longrightarrow> takeWhile (\<lambda>c. c \<noteq> CHR ''T'') d = d"
  by (auto intro: takeWhile_eq_all_conv [THEN iffD2])

lemma legacy_times:
  "legacyDates ''OCT 5 2023'' = Some 1696464000000"
  "legacyDates ''OCT 5 2024'' = Some 1728086400000"
  by (simp_all add: legacyDates_def)

lemma iso_times:
  "isoDateTime ''2024-05-15T00:00:00.000Z'' = Some 1715731200000"
  "isoDateTime ''2024-05-01T08:30:00.000Z'' = Some 1714552200000"
  "isoDateTime ''2024-07-15T09:00:00.000Z'' = Some 1721034000000"
  "isoDateTime ''2024-13-01T00:00:00.000Z'' = None"
  by (simp_all add: date_defs)

lemma sample_resolves:
  assumes "fst (getDigitalReleaseDate w 603) = Inr (Some d)"
    and "TMDB_API_KEY w = ''k''" and "fetch_find w = sample_find"
  shows "resolvesTo w \<lparr>args_type = ''movie'', args_id = ''tt1234''\<rparr> 603 d"
  using assms
  by (simp add: resolvesTo_def startsWith_def beforeColon_def getTmdbIdFromImdb_def
      fetchJson_def sample_find_def find_url_def TMDB_BASE_URL_def ok_def first_def)

text \<open>
  C3, amended. A request that resolves to a date whose time is at or before the clock's
  reading (equality included) gets the single entry ``Digital release'', with the link to
  the film's page; its title is ``Released'' followed by the part of the resolved string
  in front of its first \<^verbatim>\<open>T\<close>, or by the whole string when that part is empty (so by the
  whole string whenever it holds no \<^verbatim>\<open>T\<close>).
\<close>

theorem streamHandler_digital_release:
  assumes "resolvesTo w args tmdbId plannedDate"
    and "getTime w plannedDate = Some releaseTime"
    and "releaseTime \<le> now w"
  shows "fst (streamHandler w args) =
           Inr [\<lparr>name = ''Digital release'',
                 title = ''Released '' @
                   (if takeWhile (\<lambda>c. c \<noteq> CHR ''T'') plannedDate = [] then plannedDate
                    else takeWhile (\<lambda>c. c \<noteq> CHR ''T'') plannedDate),
                 externalUrl = ''https://www.themoviedb.org/movie/'' @ numberToString tmdbId\<rparr>]
         \<and> (CHR ''T'' \<notin> set plannedDate \<longrightarrow>
              takeWhile (\<lambda>c. c \<noteq> CHR ''T'') plannedDate = plannedDate)"
proof -
  from assms(1) have "plannedDate \<noteq> []"
    by (auto simp: resolvesTo_def dest: getDigitalReleaseDate_nonempty)
  then have "fst (streamHandler w args) =
      Inr [\<lparr>name = ''Digital release'', title = ''Released '' @ dateOnlyOf plannedDate,
            externalUrl = ''https://www.themoviedb.org/movie/'' @ numberToString tmdbId\<rparr>]"
    by (simp add: streamHandler_resolved [OF assms(1)] formatDate_released [OF _ assms(2,3)])
  then show ?thesis
    by (simp add: dateOnlyOf_eq dateOnlyOf_whole)
qed

theorem streamHandler_digital_release_witness:
  "getTime (sample_world [region ''US'' [digital ''2024-05-15T00:00:00.000Z'']])
       ''2024-05-15T00:00:00.000Z'' =
     Some (now (sample_world [region ''US'' [digital ''2024-05-15T00:00:00.000Z'']]))
   \<and> fst (streamHandler (sample_world [region ''US'' [digital ''2024-05-15T00:00:00.000Z'']])
       \<lparr>args_type = ''movie'', args_id = ''tt1234''\<rparr>) =
     Inr [\<lparr>name = ''Digital release'', title = ''Released 2024-05-15'',
           externalUrl = ''https://www.themoviedb.org/movie/603''\<rparr>]"
proof -
  let ?w = "sample_world [region ''US'' [digital ''2024-05-15T00:00:00.000Z'']]"
  let ?args = "\<lparr>args_type = ''movie'', args_id = ''tt1234''\<rparr>"
  have date: "fst (getDigitalReleaseDate ?w 603) = Inr (Some ''2024-05-15T00:00:00.000Z'')"
    by (simp add: resolver_defs iso_times)
  have res: "resolvesTo ?w ?args 603 ''2024-05-15T00:00:00.000Z''"
    by (rule sample_resolves [OF date]) (simp_all add: sample_world_def TMDB_API_KEY_def)
  have time: "getTime ?w ''2024-05-15T00:00:00.000Z'' = Some (now ?w)"
    by (simp add: sample_gates iso_times)
  from streamHandler_digital_release [OF res time]
  have "fst (streamHandler ?w ?args) =
     Inr [\<lparr>name = ''Digital release'', title = ''Released 2024-05-15'',
           externalUrl = ''https://www.themoviedb.org/movie/603''\<rparr>]"
    by (simp add: number_603)
  with time show ?thesis by simp
qed

text \<open>
  C3 as stated fails where the resolved string is cut: for \<^verbatim>\<open>OCT 5 2023\<close>, which the
  runtime's parser reads as a date before the clock's reading, the title is
  \<^verbatim>\<open>Released OC\<close>, which does not hold the date; and for the date and time
  \<^verbatim>\<open>2024-05-01T08:30:00.000Z\<close> the title holds the day without the time.
\<close>

theorem streamHandler_digital_release_counterexample:
  "fst (getDigitalReleaseDate
          ((sample_world [region ''US'' [digital ''OCT 5 2023'']])\<lparr>getTime := legacyDates\<rparr>)
          603) = Inr (Some ''OCT 5 2023'')
   \<and> legacyDates ''OCT 5 2023'' = Some 1696464000000
   \<and> (1696464000000 :: int) \<le>
       now ((sample_world [region ''US'' [digital ''OCT 5 2023'']])\<lparr>getTime := legacyDates\<rparr>)
   \<and> fst (streamHandler
          ((sample_world [region ''US'' [digital ''OCT 5 2023'']])\<lparr>getTime := legacyDates\<rparr>)
          \<lparr>args_type = ''movie'', args_id = ''tt1234''\<rparr>) =
       Inr [\<lparr>name = ''Digital release'', title = ''Released OC'',
             externalUrl = ''https://www.themoviedb.org/movie/603''\<rparr>]
   \<and> fst (getDigitalReleaseDate
          (sample_world [region ''US'' [digital ''2024-05-01T08:30:00.000Z'']]) 603) =
       Inr (Some ''2024-05-01T08:30:00.000Z'')
   \<and> isoDateTime ''2024-05-01T08:30:00.000Z'' = Some 1714552200000
   \<and> (1714552200000 :: int) \<le>
       now (sample_world [region ''US'' [digital ''2024-05-01T08:30:00.000Z'']])
   \<and> fst (streamHandler (sample_world [region ''US'' [digital ''2024-05-01T08:30:00.000Z'']])
          \<lparr>args_type = ''movie'', args_id = ''tt1234''\<rparr>) =
       Inr [\<lparr>name = ''Digital release'', title = ''Released 2024-05-01'',
             externalUrl = ''https://www.themoviedb.org/movie/603''\<rparr>]"
proof -
  let ?w = "(sample_world [region ''US'' [digital ''OCT 5 2023'']])\<lparr>getTime := legacyDates\<rparr>"
  let ?v = "sample_world [region ''US'' [digital ''2024-05-01T08:30:00.000Z'']]"
  let ?args = "\<lparr>args_type = ''movie'', args_id = ''tt1234''\<rparr>"
  have date_w: "fst (getDigitalReleaseDate ?w 603) = Inr (Some ''OCT 5 2023'')"
    by (simp add: resolver_defs legacy_times)
  have res_w: "resolvesTo ?w ?args 603 ''OCT 5 2023''"
    by (rule sample_resolves [OF date_w]) (simp_all add: sample_world_def TMDB_API_KEY_def)
  have time_w: "getTime ?w ''OCT 5 2023'' = Some 1696464000000"
    by (simp add: legacy_times)
  have now_w: "(1696464000000 :: int) \<le> now ?w"
    by (simp add: sample_world_def)
  have out_w: "fst (streamHandler ?w ?args) =
       Inr [\<lparr>name = ''Digital release'', title = ''Released OC'',
             externalUrl = ''https://www.themoviedb.org/movie/603''\<rparr>]"
    by (simp add: streamHandler_resolved [OF res_w] formatDate_released [OF _ time_w now_w]
        dateOnlyOf_eq number_603)
  have date_v: "fst (getDigitalReleaseDate ?v 603) = Inr (Some ''2024-05-01T08:30:00.000Z'')"
    by (simp add: resolver_defs iso_times)
  have res_v: "resolvesTo ?v ?args 603 ''2024-05-01T08:30:00.000Z''"
    by (rule sample_resolves [OF date_v]) (simp_all add: sample_world_def TMDB_API_KEY_def)
  have time_v: "getTime ?v ''2024-05-01T08:30:00.000Z'' = Some 1714552200000"
    by (simp add: sample_gates iso_times)
  have now_v: "(1714552200000 :: int) \<le> now ?v"
    by (simp add: sample_gates)
  have out_v: "fst (streamHandler ?v ?args) =
       Inr [\<lparr>name = ''Digital release'', title = ''Released 2024-05-01'',
             externalUrl = ''https://www.themoviedb.org/movie/603''\<rparr>]"
    by (simp add: streamHandler_resolved [OF res_v] formatDate_released [OF _ time_v now_v]
        dateOnlyOf_eq number_603)
  from date_w now_w out_w date_v now_v out_v show ?thesis
    by (simp add: legacy_times iso_times)
qed

text \<open>
  C4, amended. A request that resolves to a date whose time is strictly after the clock's
  reading gets the single entry ``Not Available Yet'' (the name starts with an hourglass),
  with the link to the film's page; its title shows the part of the resolved string in
  front of its first \<^verbatim>\<open>T\<close>, or the whole string when that part is empty (so the whole
  string whenever it holds no \<^verbatim>\<open>T\<close>).
\<close>

theorem streamHandler_not_available_yet:
  assumes "resolvesTo w args tmdbId plannedDate"
    and "getTime w plannedDate = Some releaseTime"
    and "now w < releaseTime"
  shows "fst (streamHandler w args) =
           Inr [\<lparr>name = [CHR 0xE2, CHR 0x8F, CHR 0xB3] @ '' Not Available Yet'',
                 title = ''Digital release: '' @
                   (if takeWhile (\<lambda>c. c \<noteq> CHR ''T'') plannedDate = [] then plannedDate
                    else takeWhile (\<lambda>c. c \<noteq> CHR ''T'') plannedDate) @ '' '' @
                   [CHR 0xE2, CHR 0x80, CHR 0x94] @ '' Check back after that date!'',
                 externalUrl = ''https://www.themoviedb.org/movie/'' @ numberToString tmdbId\<rparr>]
         \<and> (CHR ''T'' \<notin> set plannedDate \<longrightarrow>
              takeWhile (\<lambda>c. c \<noteq> CHR ''T'') plannedDate = plannedDate)"
proof -
  from assms(1) have "plannedDate \<noteq> []"
    by (auto simp: resolvesTo_def dest: getDigitalReleaseDate_nonempty)
  then have "fst (streamHandler w args) =
      Inr [\<lparr>name = [CHR 0xE2, CHR 0x8F, CHR 0xB3] @ '' Not Available Yet'',
            title = ''Digital release: '' @ dateOnlyOf plannedDate @ '' '' @
              [CHR 0xE2, CHR 0x80, CHR 0x94] @ '' Check back after that date!'',
            externalUrl = ''https://www.themoviedb.org/movie/'' @ numberToString tmdbId\<rparr>]"
    by (simp add: streamHandler_resolved [OF assms(1)] formatDate_planned [OF _ assms(2,3)])
  then show ?thesis
    by (simp add: dateOnlyOf_eq dateOnlyOf_whole)
qed

theorem streamHandler_not_available_yet_witness:
  "getTime (sample_world [region ''FR'' [digital ''2024-07-15T09:00:00.000Z'']])
       ''2024-07-15T09:00:00.000Z'' = Some 1721034000000
   \<and> now (sample_world [region ''FR'' [digital ''2024-07-15T09:00:00.000Z'']]) < 1721034000000
   \<and> fst (streamHandler (sample_world [region ''FR'' [digital ''2024-07-15T09:00:00.000Z'']])
       \<lparr>args_type = ''movie'', args_id = ''tt1234''\<rparr>) =
     Inr [\<lparr>name = [CHR 0xE2, CHR 0x8F, CHR 0xB3] @ '' Not Available Yet'',
           title = ''Digital release: 2024-07-15 '' @
             [CHR 0xE2, CHR 0x80, CHR 0x94] @ '' Check back after that date!'',
           externalUrl = ''https://www.themoviedb.org/movie/603''\<rparr>]"
proof -
  let ?w = "sample_world [region ''FR'' [digital ''2024-07-15T09:00:00.000Z'']]"
  let ?args = "\<lparr>args_type = ''movie'', args_id = ''tt1234''\<rparr>"
  have date: "fst (getDigitalReleaseDate ?w 603) = Inr (Some ''2024-07-15T09:00:00.000Z'')"
    by (simp add: resolver_defs iso_times)
  have res: "resolvesTo ?w ?args 603 ''2024-07-15T09:00:00.000Z''"
    by (rule sample_resolves [OF date]) (simp_all add: sample_world_def TMDB_API_KEY_def)
  have time: "getTime ?w ''2024-07-15T09:00:00.000Z'' = Some 1721034000000"
    by (simp add: sample_gates iso_times)
  have later: "now ?w < 1721034000000"
    by (simp add: sample_gates)
  from streamHandler_not_available_yet [OF res time later]
  have "fst (streamHandler ?w ?args) =
     Inr [\<lparr>name = [CHR 0xE2, CHR 0x8F, CHR 0xB3] @ '' Not Available Yet'',
           title = ''Digital release: 2024-07-15 '' @
             [CHR 0xE2, CHR 0x80, CHR 0x94] @ '' Check back after that date!'',
           externalUrl = ''https://www.themoviedb.org/movie/603''\<rparr>]"
    by (simp add: number_603)
  with time later show ?thesis by simp
qed

text \<open>
  C4 as stated fails where the resolved string is cut: for \<^verbatim>\<open>OCT 5 2024\<close>, which the
  runtime's parser reads as a date after the clock's reading, the title shows \<^verbatim>\<open>OC\<close>,
  which does not hold the date; and for the date and time \<^verbatim>\<open>2024-07-15T09:00:00.000Z\<close>
  the title holds the day without the time.
\<close>

theorem streamHandler_not_available_yet_counterexample:
  "fst (getDigitalReleaseDate
          ((sample_world [region ''US'' [digital ''OCT 5 2024'']])\<lparr>getTime := legacyDates\<rparr>)
          603) = Inr (Some ''OCT 5 2024'')
   \<and> legacyDates ''OCT 5 2024'' = Some 1728086400000
   \<and> now ((sample_world [region ''US'' [digital ''OCT 5 2024'']])\<lparr>getTime := legacyDates\<rparr>) <
       1728086400000
   \<and> fst (streamHandler
          ((sample_world [region ''US'' [digital ''OCT 5 2024'']])\<lparr>getTime := legacyDates\<rparr>)
          \<lparr>args_type = ''movie'', args_id = ''tt1234''\<rparr>) =
       Inr [\<lparr>name = [CHR 0xE2, CHR 0x8F, CHR 0xB3] @ '' Not Available Yet'',
             title = ''Digital release: OC '' @
               [CHR 0xE2, CHR 0x80, CHR 0x94] @ '' Check back after that date!'',
             externalUrl = ''https://www.themoviedb.org/movie/603''\<rparr>]
   \<and> fst (getDigitalReleaseDate
          (sample_world [region ''US'' [digital ''2024-07-15T09:00:00.000Z'']]) 603) =
       Inr (Some ''2024-07-15T09:00:00.000Z'')
   \<and> isoDateTime ''2024-07-15T09:00:00.000Z'' = Some 1721034000000
   \<and> now (sample_world [region ''US'' [digital ''2024-07-15T09:00:00.000Z'']]) < 1721034000000
   \<and> fst (streamHandler (sample_world [region ''US'' [digital ''2024-07-15T09:00:00.000Z'']])
          \<lparr>args_type = ''movie'', args_id = ''tt1234''\<rparr>) =
       Inr [\<lparr>name = [CHR 0xE2, CHR 0x8F, CHR 0xB3] @ '' Not Available Yet'',
             title = ''Digital release: 2024-07-15 '' @
               [CHR 0xE2, CHR 0x80, CHR 0x94] @ '' Check back after that date!'',
             externalUrl = ''https://www.themoviedb.org/movie/603''\<rparr>]"
proof -
  let ?w = "(sample_world [region ''US'' [digital ''OCT 5 2024'']])\<lparr>getTime := legacyDates\<rparr>"
  let ?v = "sample_world [region ''US'' [digital ''2024-07-15T09:00:00.000Z'']]"
  let ?args = "\<lparr>args_type = ''movie'', args_id = ''tt1234''\<rparr>"
  have date_w: "fst (getDigitalReleaseDate ?w 603) = Inr (Some ''OCT 5 2024'')"
    by (simp add: resolver_defs legacy_times)
  have res_w: "resolvesTo ?w ?args 603 ''OCT 5 2024''"
    by (rule sample_resolves [OF date_w]) (simp_all add: sample_world_def TMDB_API_KEY_def)
  have time_w: "getTime ?w ''OCT 5 2024'' = Some 1728086400000"
    by (simp add: legacy_times)
  have now_w: "now ?w < 1728086400000"
    by (simp add: sample_world_def)
  have out_w: "fst (streamHandler ?w ?args) =
       Inr [\<lparr>name = [CHR 0xE2, CHR 0x8F, CHR 0xB3] @ '' Not Available Yet'',
             title = ''Digital release: OC '' @
               [CHR 0xE2, CHR 0x80, CHR 0x94] @ '' Check back after that date!'',
             externalUrl = ''https://www.themoviedb.org/movie/603''\<rparr>]"
    by (simp add: streamHandler_resolved [OF res_w] formatDate_planned [OF _ time_w now_w]
        dateOnlyOf_eq number_603)
  have date_v: "fst (getDigitalReleaseDate ?v 603) = Inr (Some ''2024-07-15T09:00:00.000Z'')"
    by (simp add: resolver_defs iso_times)
  have res_v: "resolvesTo ?v ?args 603 ''2024-07-15T09:00:00.000Z''"
    by (rule sample_resolves [OF date_v]) (simp_all add: sample_world_def TMDB_API_KEY_def)
  have time_v: "getTime ?v ''2024-07-15T09:00:00.000Z'' = Some 1721034000000"
    by (simp add: sample_gates iso_times)
  have now_v: "now ?v < 1721034000000"
    by (simp add: sample_gates)
  have out_v: "fst (streamHandler ?v ?args) =
       Inr [\<lparr>name = [CHR 0xE2, CHR 0x8F, CHR 0xB3] @ '' Not Available Yet'',
             title = ''Digital release: 2024-07-15 '' @
               [CHR 0xE2, CHR 0x80, CHR 0x94] @ '' Check back after that date!'',
             externalUrl = ''https://www.themoviedb.org/movie/603''\<rparr>]"
    by (simp add: streamHandler_resolved [OF res_v] formatDate_planned [OF _ time_v now_v]
        dateOnlyOf_eq number_603)
  from date_w now_w out_w date_v now_v out_v show ?thesis
    by (simp add: legacy_times iso_times)
qed

text \<open>
  C5, amended. A request that resolves to a date that does not parse gets the single
  entry ``Not yet available'', whose title shows the part of the date string in front of
  its first \<^verbatim>\<open>T\<close>, or the whole string when that part is empty (so the whole string
  whenever it holds no \<^verbatim>\<open>T\<close>), with the link to the film's page.
\<close>

theorem streamHandler_not_yet_available:
  assumes "resolvesTo w args tmdbId plannedDate"
    and "getTime w plannedDate = None"
  shows "fst (streamHandler w args) =
           Inr [\<lparr>name = ''Not yet available'',
                 title = ''Planned digital release: '' @
                   (if takeWhile (\<lambda>c. c \<noteq> CHR ''T'') plannedDate = [] then plannedDate
                    else takeWhile (\<lambda>c. c \<noteq> CHR ''T'') plannedDate),
                 externalUrl = ''https://www.themoviedb.org/movie/'' @ numberToString tmdbId\<rparr>]
         \<and> (CHR ''T'' \<notin> set plannedDate \<longrightarrow>
              takeWhile (\<lambda>c. c \<noteq> CHR ''T'') plannedDate = plannedDate)"
proof -
  from assms(1) have "plannedDate \<noteq> []"
    by (auto simp: resolvesTo_def dest: getDigitalReleaseDate_nonempty)
  then have "fst (streamHandler w args) =
      Inr [\<lparr>name = ''Not yet available'',
            title = ''Planned digital release: '' @ dateOnlyOf plannedDate,
            externalUrl = ''https://www.themoviedb.org/movie/'' @ numberToString tmdbId\<rparr>]"
    by (simp add: streamHandler_resolved [OF assms(1)] formatDate_unparseable [OF _ assms(2)])
  moreover have "takeWhile (\<lambda>c. c \<noteq> CHR ''T'') plannedDate = plannedDate"
    if "CHR ''T'' \<notin> set plannedDate"
    using that by (auto intro: takeWhile_eq_all_conv [THEN iffD2])
  ultimately show ?thesis
    by (simp add: dateOnlyOf_eq)
qed

theorem streamHandler_not_yet_available_witness:
  "getTime (sample_world [region ''US'' [digital ''2024-13-01T00:00:00.000Z'']])
       ''2024-13-01T00:00:00.000Z'' = None
   \<and> fst (streamHandler (sample_world [region ''US'' [digital ''2024-13-01T00:00:00.000Z'']])
       \<lparr>args_type = ''movie'', args_id = ''tt1234''\<rparr>) =
     Inr [\<lparr>name = ''Not yet available'', title = ''Planned digital release: 2024-13-01'',
           externalUrl = ''https://www.themoviedb.org/movie/603''\<rparr>]"
proof -
  let ?w = "sample_world [region ''US'' [digital ''2024-13-01T00:00:00.000Z'']]"
  let ?args = "\<lparr>args_type = ''movie'', args_id = ''tt1234''\<rparr>"
  have date: "fst (getDigitalReleaseDate ?w 603) = Inr (Some ''2024-13-01T00:00:00.000Z'')"
    by (simp add: resolver_defs date_defs)
  have res: "resolvesTo ?w ?args 603 ''2024-13-01T00:00:00.000Z''"
    by (simp add: resolvesTo_def sample_gates startsWith_def beforeColon_def sample_lookup date)
  have time: "getTime ?w ''2024-13-01T00:00:00.000Z'' = None"
    by (simp add: sample_gates date_defs)
  from streamHandler_not_yet_available [OF res time]
  have "fst (streamHandler ?w ?args) =
     Inr [\<lparr>name = ''Not yet available'', title = ''Planned digital release: 2024-13-01'',
           externalUrl = ''https://www.themoviedb.org/movie/603''\<rparr>]"
    by (simp add: number_603)
  with time show ?thesis by simp
qed

text \<open>
  C5 as stated fails for the date string \<^verbatim>\<open>NOT SET\<close>: it does not parse, the request
  resolves to it, and the title shows \<^verbatim>\<open>NO\<close>, not the raw string.
\<close>

theorem streamHandler_raw_date_counterexample:
  "fst (getDigitalReleaseDate (sample_world [region ''US'' [digital ''NOT SET'']]) 603) =
     Inr (Some ''NOT SET'')
   \<and> getTime (sample_world [region ''US'' [digital ''NOT SET'']]) ''NOT SET'' = None
   \<and> fst (streamHandler (sample_world [region ''US'' [digital ''NOT SET'']])
       \<lparr>args_type = ''movie'', args_id = ''tt1234''\<rparr>) =
     Inr [\<lparr>name = ''Not yet available'', title = ''Planned digital release: NO'',
           externalUrl = ''https://www.themoviedb.org/movie/603''\<rparr>]
   \<and> fst (streamHandler (sample_world [region ''US'' [digital ''NOT SET'']])
       \<lparr>args_type = ''movie'', args_id = ''tt1234''\<rparr>) \<noteq>
     Inr [\<lparr>name = ''Not yet available'', title = ''Planned digital release: NOT SET'',
           externalUrl = ''https://www.themoviedb.org/movie/603''\<rparr>]"
proof -
  let ?w = "sample_world [region ''US'' [digital ''NOT SET'']]"
  let ?args = "\<lparr>args_type = ''movie'', args_id = ''tt1234''\<rparr>"
  have date: "fst (getDigitalReleaseDate ?w 603) = Inr (Some ''NOT SET'')"
    by (simp add: resolver_defs date_defs)
  have res: "resolvesTo ?w ?args 603 ''NOT SET''"
    by (simp add: resolvesTo_def sample_gates startsWith_def beforeColon_def sample_lookup date)
  have time: "getTime ?w ''NOT SET'' = None"
    by (simp add: sample_gates date_defs)
  have "fst (streamHandler ?w ?args) =
     Inr [\<lparr>name = ''Not yet available'', title = ''Planned digital release: NO'',
           externalUrl = ''https://www.themoviedb.org/movie/603''\<rparr>]"
    by (simp add: streamHandler_resolved [OF res] formatDate_unparseable [OF _ time]
        dateOnlyOf_eq number_603)
  with date time show ?thesis by simp
qed


section \<open>Failures and misses of the provider\<close>

lemma fetchJson_fails:
  "fails (fetch url) \<Longrightarrow> \<exists>e. fetchJson fetch url = (Inl e, [url])"
  by (auto simp: fails_def fetchJson_def split: option.splits)

lemma getTmdbIdFromImdb_fails:
  assumes "fails (fetch_find w (find_url (TMDB_API_KEY w) imdbId))"
  shows "\<exists>e. getTmdbIdFromImdb w imdbId = (Inl e, [find_url (TMDB_API_KEY w) imdbId])"
  using assms fetchJson_fails [of "fetch_find w" "find_url (TMDB_API_KEY w) imdbId"]
  by (auto simp: getTmdbIdFromImdb_def)

lemma getDigitalReleaseDate_fails:
  assumes "fails (fetch_release w (release_dates_url (TMDB_API_KEY w) tmdbId))"
  shows "\<exists>e. getDigitalReleaseDate w tmdbId =
           (Inl e, [release_dates_url (TMDB_API_KEY w) tmdbId])"
  using assms fetchJson_fails [of "fetch_release w" "release_dates_url (TMDB_API_KEY w) tmdbId"]
  by (auto simp: getDigitalReleaseDate_def)

lemma tryBlock_lookup_fails:
  assumes "fails (fetch_find w (find_url (TMDB_API_KEY w) imdbId))"
  shows "\<exists>e. tryBlock w imdbId = (Inl e, [find_url (TMDB_API_KEY w) imdbId])"
  using getTmdbIdFromImdb_fails [OF assms] by (auto simp: tryBlock_def)

lemma tryBlock_release_fails:
  assumes "fst (getTmdbIdFromImdb w imdbId) = Inr (Some tmdbId)" and "tmdbId \<noteq> 0"
    and "fails (fetch_release w (release_dates_url (TMDB_API_KEY w) tmdbId))"
  shows "\<exists>e. tryBlock w imdbId =
           (Inl e, [find_url (TMDB_API_KEY w) imdbId,
                    release_dates_url (TMDB_API_KEY w) tmdbId])"
proof -
  obtain r1 c1 where g1: "getTmdbIdFromImdb w imdbId = (r1, c1)"
    by (cases "getTmdbIdFromImdb w imdbId")
  from g1 assms(1) snd_getTmdbIdFromImdb [of w imdbId]
  have 1: "r1 = Inr (Some tmdbId)" "c1 = [find_url (TMDB_API_KEY w) imdbId]"
    by simp_all
  from getDigitalReleaseDate_fails [OF assms(3)] obtain e where
    "getDigitalReleaseDate w tmdbId = (Inl e, [release_dates_url (TMDB_API_KEY w) tmdbId])"
    by blast
  with assms(2) show ?thesis
    by (simp add: tryBlock_def g1 1)
qed

lemma streamHandler_returns: "\<exists>streams. fst (streamHandler w args) = Inr streams"
  by (auto simp: streamHandler_unfold split: prod.splits sum.splits)

text \<open>
  C2. The handler always returns a list of entries: nothing it calls can throw past it.
  Once the credential, type and prefix checks have passed, a failing provider call
  (network failure, a status that is not a success, a body that is not JSON), be it the
  lookup or, after a lookup that gave an identifier, the release-dates call, gives exactly
  the entry ``TMDB error'' with the provider's landing page as its link.
\<close>

theorem streamHandler_catches_provider_failures:
  "(\<exists>streams. fst (streamHandler w args) = Inr streams)
   \<and> (TMDB_API_KEY w \<noteq> [] \<and> args_type args = ''movie'' \<and> startsWith (args_id args) ''tt'' \<longrightarrow>
       (fails (fetch_find w (find_url (TMDB_API_KEY w) (beforeColon (args_id args)))) \<longrightarrow>
          streamHandler w args =
            (Inr [\<lparr>name = ''TMDB error'', title = ''Failed to fetch release data'',
                   externalUrl = ''https://www.themoviedb.org''\<rparr>],
             [find_url (TMDB_API_KEY w) (beforeColon (args_id args))]))
     \<and> (\<forall>tmdbId.
          fst (getTmdbIdFromImdb w (beforeColon (args_id args))) = Inr (Some tmdbId) \<and>
          tmdbId \<noteq> 0 \<and>
          fails (fetch_release w (release_dates_url (TMDB_API_KEY w) tmdbId)) \<longrightarrow>
          streamHandler w args =
            (Inr [\<lparr>name = ''TMDB error'', title = ''Failed to fetch release data'',
                   externalUrl = ''https://www.themoviedb.org''\<rparr>],
             [find_url (TMDB_API_KEY w) (beforeColon (args_id args)),
              release_dates_url (TMDB_API_KEY w) tmdbId])))"
proof (intro conjI impI allI)
  show "\<exists>streams. fst (streamHandler w args) = Inr streams"
    by (rule streamHandler_returns)
next
  assume gates: "TMDB_API_KEY w \<noteq> [] \<and> args_type args = ''movie'' \<and> startsWith (args_id args) ''tt''"
    and "fails (fetch_find w (find_url (TMDB_API_KEY w) (beforeColon (args_id args))))"
  from tryBlock_lookup_fails [OF this(2)] obtain e where
    "tryBlock w (beforeColon (args_id args)) =
       (Inl e, [find_url (TMDB_API_KEY w) (beforeColon (args_id args))])"
    by blast
  with gates show "streamHandler w args =
      (Inr [\<lparr>name = ''TMDB error'', title = ''Failed to fetch release data'',
             externalUrl = ''https://www.themoviedb.org''\<rparr>],
       [find_url (TMDB_API_KEY w) (beforeColon (args_id args))])"
    by (simp add: streamHandler_unfold)
next
  fix tmdbId
  assume gates: "TMDB_API_KEY w \<noteq> [] \<and> args_type args = ''movie'' \<and> startsWith (args_id args) ''tt''"
    and calls: "fst (getTmdbIdFromImdb w (beforeColon (args_id args))) = Inr (Some tmdbId) \<and>
      tmdbId \<noteq> 0 \<and> fails (fetch_release w (release_dates_url (TMDB_API_KEY w) tmdbId))"
  from calls tryBlock_release_fails [of w "beforeColon (args_id args)" tmdbId] obtain e where
    "tryBlock w (beforeColon (args_id args)) =
       (Inl e, [find_url (TMDB_API_KEY w) (beforeColon (args_id args)),
                release_dates_url (TMDB_API_KEY w) tmdbId])"
    by blast
  with gates show "streamHandler w args =
      (Inr [\<lparr>name = ''TMDB error'', title = ''Failed to fetch release data'',
             externalUrl = ''https://www.themoviedb.org''\<rparr>],
       [find_url (TMDB_API_KEY w) (beforeColon (args_id args)),
        release_dates_url (TMDB_API_KEY w) tmdbId])"
    by (simp add: streamHandler_unfold)
qed

lemma sample_urls:
  "find_url ''k'' ''tt9'' =
     ''https://api.themoviedb.org/3/find/tt9?api_key=k&external_source=imdb_id''"
  "find_url ''k'' ''tt1234'' =
     ''https://api.themoviedb.org/3/find/tt1234?api_key=k&external_source=imdb_id''"
  "release_dates_url ''k'' 603 =
     ''https://api.themoviedb.org/3/movie/603/release_dates?api_key=k''"
  by (simp_all add: find_url_def release_dates_url_def TMDB_BASE_URL_def number_603)

theorem streamHandler_catches_provider_failures_witness:
  "fails (fetch_find (sample_world []) (find_url ''k'' ''tt9''))
   \<and> streamHandler (sample_world []) \<lparr>args_type = ''movie'', args_id = ''tt9''\<rparr> =
       (Inr [\<lparr>name = ''TMDB error'', title = ''Failed to fetch release data'',
              externalUrl = ''https://www.themoviedb.org''\<rparr>],
        [''https://api.themoviedb.org/3/find/tt9?api_key=k&external_source=imdb_id''])
   \<and> fails (fetch_release ((sample_world [])\<lparr>fetch_release := unreachable\<rparr>)
        (release_dates_url ''k'' 603))
   \<and> streamHandler ((sample_world [])\<lparr>fetch_release := unreachable\<rparr>)
        \<lparr>args_type = ''movie'', args_id = ''tt1234''\<rparr> =
       (Inr [\<lparr>name = ''TMDB error'', title = ''Failed to fetch release data'',
              externalUrl = ''https://www.themoviedb.org''\<rparr>],
        [''https://api.themoviedb.org/3/find/tt1234?api_key=k&external_source=imdb_id'',
         ''https://api.themoviedb.org/3/movie/603/release_dates?api_key=k''])
   \<and> fails (fetch_release ((sample_world [])\<lparr>fetch_release := not_json\<rparr>)
        (release_dates_url ''k'' 603))
   \<and> streamHandler ((sample_world [])\<lparr>fetch_release := not_json\<rparr>)
        \<lparr>args_type = ''movie'', args_id = ''tt1234''\<rparr> =
       (Inr [\<lparr>name = ''TMDB error'', title = ''Failed to fetch release data'',
              externalUrl = ''https://www.themoviedb.org''\<rparr>],
        [''https://api.themoviedb.org/3/find/tt1234?api_key=k&external_source=imdb_id'',
         ''https://api.themoviedb.org/3/movie/603/release_dates?api_key=k''])"
proof -
  let ?a9 = "\<lparr>args_type = ''movie'', args_id = ''tt9''\<rparr>"
  let ?a = "\<lparr>args_type = ''movie'', args_id = ''tt1234''\<rparr>"
  let ?w1 = "sample_world []"
  let ?w2 = "(sample_world [])\<lparr>fetch_release := unreachable\<rparr>"
  let ?w3 = "(sample_world [])\<lparr>fetch_release := not_json\<rparr>"
  have key: "TMDB_API_KEY ?w1 = ''k''" "TMDB_API_KEY ?w2 = ''k''" "TMDB_API_KEY ?w3 = ''k''"
    by (simp_all add: sample_world_def TMDB_API_KEY_def)
  have f1: "fails (fetch_find ?w1 (find_url ''k'' ''tt9''))"
    by (simp add: fails_def sample_world_def sample_find_def sample_urls ok_def)
  have f2: "fails (fetch_release ?w2 (release_dates_url ''k'' 603))"
    by (simp add: fails_def unreachable_def)
  have f3: "fails (fetch_release ?w3 (release_dates_url ''k'' 603))"
    by (simp add: fails_def not_json_def)
  have l2: "fst (getTmdbIdFromImdb ?w2 ''tt1234'') = Inr (Some 603)"
    by (simp add: getTmdbIdFromImdb_def fetchJson_def sample_world_def sample_find_def
      find_url_def TMDB_BASE_URL_def TMDB_API_KEY_def ok_def first_def)
  have l3: "fst (getTmdbIdFromImdb ?w3 ''tt1234'') = Inr (Some 603)"
    by (simp add: getTmdbIdFromImdb_def fetchJson_def sample_world_def sample_find_def
      find_url_def TMDB_BASE_URL_def TMDB_API_KEY_def ok_def first_def)
  have r1: "streamHandler ?w1 ?a9 =
       (Inr [\<lparr>name = ''TMDB error'', title = ''Failed to fetch release data'',
              externalUrl = ''https://www.themoviedb.org''\<rparr>],
        [''https://api.themoviedb.org/3/find/tt9?api_key=k&external_source=imdb_id''])"
    using streamHandler_catches_provider_failures [of ?w1 ?a9] f1
    by (simp add: key startsWith_def beforeColon_def sample_urls)
  have r2: "streamHandler ?w2 ?a =
       (Inr [\<lparr>name = ''TMDB error'', title = ''Failed to fetch release data'',
              externalUrl = ''https://www.themoviedb.org''\<rparr>],
        [''https://api.themoviedb.org/3/find/tt1234?api_key=k&external_source=imdb_id'',
         ''https://api.themoviedb.org/3/movie/603/release_dates?api_key=k''])"
    using streamHandler_catches_provider_failures [of ?w2 ?a] f2 l2
    by (simp add: key startsWith_def beforeColon_def sample_urls)
  have r3: "streamHandler ?w3 ?a =
       (Inr [\<lparr>name = ''TMDB error'', title = ''Failed to fetch release data'',
              externalUrl = ''https://www.themoviedb.org''\<rparr>],
        [''https://api.themoviedb.org/3/find/tt1234?api_key=k&external_source=imdb_id'',
         ''https://api.themoviedb.org/3/movie/603/release_dates?api_key=k''])"
    using streamHandler_catches_provider_failures [of ?w3 ?a] f3 l3
    by (simp add: key startsWith_def beforeColon_def sample_urls)
  from f1 f2 f3 r1 r2 r3 show ?thesis by simp
qed


text \<open>
  C8. For a movie request with a \<^verbatim>\<open>tt\<close> identifier (the credential being configured, so
  that the lookup is made), when the lookup succeeds and its answer has no movie result,
  the handler gives the single entry ``No TMDB match'', naming the identifier, with the
  provider's landing page as its link, and makes no further call.
\<close>

theorem streamHandler_no_match:
  assumes "TMDB_API_KEY w \<noteq> []" and "args_type args = ''movie''"
    and "startsWith (args_id args) ''tt''"
    and "fetch_find w (find_url (TMDB_API_KEY w) (beforeColon (args_id args))) =
           Some (Response st (Some data))"
    and "200 \<le> st" and "st \<le> 299"
    and "movie_results data = None \<or> movie_results data = Some []"
  shows "streamHandler w args =
           (Inr [\<lparr>name = ''No TMDB match'',
                  title = ''No TMDB match for '' @ beforeColon (args_id args),
                  externalUrl = ''https://www.themoviedb.org''\<rparr>],
            [find_url (TMDB_API_KEY w) (beforeColon (args_id args))])"
proof -
  from assms(4-7) have "getTmdbIdFromImdb w (beforeColon (args_id args)) =
      (Inr None, [find_url (TMDB_API_KEY w) (beforeColon (args_id args))])"
    by (auto simp: getTmdbIdFromImdb_def fetchJson_def ok_def first_def)
  then have "tryBlock w (beforeColon (args_id args)) =
      (Inr [\<lparr>name = ''No TMDB match'',
             title = ''No TMDB match for '' @ beforeColon (args_id args),
             externalUrl = ''https://www.themoviedb.org''\<rparr>],
       [find_url (TMDB_API_KEY w) (beforeColon (args_id args))])"
    by (simp add: tryBlock_def)
  with assms(1-3) show ?thesis
    by (simp add: streamHandler_unfold)
qed

theorem streamHandler_no_match_witness:
  "fetch_find ((sample_world [])\<lparr>fetch_find := no_match_find\<rparr>) (find_url ''k'' ''tt1234'') =
     Some (Response 200 (Some \<lparr>movie_results = Some []\<rparr>))
   \<and> streamHandler ((sample_world [])\<lparr>fetch_find := no_match_find\<rparr>)
       \<lparr>args_type = ''movie'', args_id = ''tt1234:1:2''\<rparr> =
     (Inr [\<lparr>name = ''No TMDB match'', title = ''No TMDB match for tt1234'',
            externalUrl = ''https://www.themoviedb.org''\<rparr>],
      [''https://api.themoviedb.org/3/find/tt1234?api_key=k&external_source=imdb_id''])"
proof -
  let ?w = "(sample_world [])\<lparr>fetch_find := no_match_find\<rparr>"
  let ?args = "\<lparr>args_type = ''movie'', args_id = ''tt1234:1:2''\<rparr>"
  have key: "TMDB_API_KEY ?w = ''k''"
    by (simp add: sample_world_def TMDB_API_KEY_def)
  have part: "beforeColon ''tt1234:1:2'' = ''tt1234''"
    by (simp add: beforeColon_def)
  have found: "fetch_find ?w (find_url ''k'' ''tt1234'') =
      Some (Response 200 (Some \<lparr>movie_results = Some []\<rparr>))"
    by (simp add: no_match_find_def)
  have "streamHandler ?w ?args =
     (Inr [\<lparr>name = ''No TMDB match'',
            title = ''No TMDB match for '' @ beforeColon (args_id ?args),
            externalUrl = ''https://www.themoviedb.org''\<rparr>],
      [find_url (TMDB_API_KEY ?w) (beforeColon (args_id ?args))])"
  proof (rule streamHandler_no_match)
    show "TMDB_API_KEY ?w \<noteq> []" by (simp add: key)
    show "args_type ?args = ''movie''" by simp
    show "startsWith (args_id ?args) ''tt''" by (simp add: startsWith_def)
    show "fetch_find ?w (find_url (TMDB_API_KEY ?w) (beforeColon (args_id ?args))) =
        Some (Response 200 (Some \<lparr>movie_results = Some []\<rparr>))"
      by (simp add: no_match_find_def)
    show "(200::nat) \<le> 200" and "(200::nat) \<le> 299" by simp_all
    show "movie_results \<lparr>movie_results = Some []\<rparr> = None \<or>
        movie_results \<lparr>movie_results = Some []\<rparr> = Some []" by simp
  qed
  then have "streamHandler ?w ?args =
     (Inr [\<lparr>name = ''No TMDB match'', title = ''No TMDB match for tt1234'',
            externalUrl = ''https://www.themoviedb.org''\<rparr>],
      [''https://api.themoviedb.org/3/find/tt1234?api_key=k&external_source=imdb_id''])"
    by (simp add: key part sample_urls)
  with found show ?thesis by simp
qed

section \<open>The shape of every answer\<close>

lemma length_formatDate: "length (formatDate w url d) = 1"
  by (simp add: formatDate_def Let_def split: option.splits)

lemma length_tryBlock: "fst (tryBlock w imdbId) = Inr streams \<Longrightarrow> length streams = 1"
  by (auto simp: tryBlock_def length_formatDate split: prod.splits sum.splits option.splits if_splits)

text \<open>
  C9. On every request and every provider the handler returns a list, and its length is
  0 in the two empty-result cases (reached with the credential configured: the media type
  is not \<^verbatim>\<open>movie\<close>, or the identifier lacks the \<^verbatim>\<open>tt\<close> prefix) and 1 in all others;
  so no answer has two or more entries.
\<close>

theorem streamHandler_entry_count:
  "\<exists>streams. fst (streamHandler w args) = Inr streams \<and>
     length streams =
       (if TMDB_API_KEY w \<noteq> [] \<and>
           (args_type args \<noteq> ''movie'' \<or> \<not> startsWith (args_id args) ''tt'')
        then 0 else 1)"
proof -
  obtain r calls where t: "tryBlock w (beforeColon (args_id args)) = (r, calls)"
    by (cases "tryBlock w (beforeColon (args_id args))")
  show ?thesis
  proof (cases r)
    case (Inl e)
    with t show ?thesis by (simp add: streamHandler_unfold)
  next
    case (Inr streams)
    with t length_tryBlock [of w "beforeColon (args_id args)" streams]
    show ?thesis by (simp add: streamHandler_unfold)
  qed
qed

theorem streamHandler_entry_count_witness:
  "(\<exists>streams. fst (streamHandler (sample_world []) \<lparr>args_type = ''series'', args_id = ''tt1234''\<rparr>) =
       Inr streams \<and> length streams = 0)
   \<and> (\<exists>streams. fst (streamHandler (sample_world []) \<lparr>args_type = ''movie'', args_id = ''tt1234''\<rparr>) =
       Inr streams \<and> length streams = 1)
   \<and> (\<exists>streams. fst (streamHandler ((sample_world [])\<lparr>env_TMDB_API_KEY := None\<rparr>)
         \<lparr>args_type = ''series'', args_id = ''tt1234''\<rparr>) =
       Inr streams \<and> length streams = 1)"
proof (intro conjI)
  show "\<exists>streams. fst (streamHandler (sample_world []) \<lparr>args_type = ''series'', args_id = ''tt1234''\<rparr>) =
       Inr streams \<and> length streams = 0"
    using streamHandler_entry_count [of "sample_world []" "\<lparr>args_type = ''series'', args_id = ''tt1234''\<rparr>"]
    by (simp add: sample_gates)
  show "\<exists>streams. fst (streamHandler (sample_world []) \<lparr>args_type = ''movie'', args_id = ''tt1234''\<rparr>) =
       Inr streams \<and> length streams = 1"
    using streamHandler_entry_count [of "sample_world []" "\<lparr>args_type = ''movie'', args_id = ''tt1234''\<rparr>"]
    by (simp add: sample_gates startsWith_def)
  show "\<exists>streams. fst (streamHandler ((sample_world [])\<lparr>env_TMDB_API_KEY := None\<rparr>)
         \<lparr>args_type = ''series'', args_id = ''tt1234''\<rparr>) =
       Inr streams \<and> length streams = 1"
    using streamHandler_entry_count [of "(sample_world [])\<lparr>env_TMDB_API_KEY := None\<rparr>"
        "\<lparr>args_type = ''series'', args_id = ''tt1234''\<rparr>"]
    by (simp add: TMDB_API_KEY_def)
qed

section \<open>The identifier\<close>







end
